theory Spec2Isabelle
  imports Complex_Main "HOL-Library.Word"
begin

unbundle bit_operations_syntax

section \<open>Values of the Python program\<close>

text \<open>
  The file content is a Python \<open>bytes\<close> object: a list of 8-bit values.
\<close>

type_synonym byte = "8 word"

text \<open>
  Python floats. The decoder only ever builds a float in two ways: by unpacking a
  32-bit IEEE-754 field (format character \<open>f\<close>, widened to a double without loss) and by
  multiplying a signed 16-bit integer with such a value. A finite single-precision value
  is a dyadic rational with a 24-bit significand; its product with a 16-bit integer has
  at most 40 significant bits and an exponent far inside the double range, so the
  correctly rounded double product is the exact product. Finite floats are therefore
  modelled by their real value (the two zeros \<open>0.0\<close> and \<open>-0.0\<close>, which compare equal
  in Python, are both the real number 0); infinities and NaN are kept apart.
\<close>

datatype pyfloat = Finite real | Infinity bool | NaN

text \<open>
  The ways in which a run leaves the normal path. \<open>FileNotFoundError\<close>, \<open>StructError\<close>
  (the module's \<open>struct.error\<close>) and \<open>IndexError\<close> are Python exceptions;
  \<open>OtherException\<close> stands for any other subclass of \<open>Exception\<close> (for instance
  a permission error of \<open>open\<close>). \<open>BadMagic\<close> is no exception: it is the early return of
  \<open>parse_map_file\<close> after the message "Invalid magic number" has been printed, and it
  carries the four bytes shown in that message.
\<close>

datatype error =
    FileNotFoundError
  | BadMagic "byte list"
  | StructError
  | IndexError
  | OtherException

section \<open>The \<open>struct\<close> module\<close>

text \<open>
  Format strings are lists of fields. All formats of the program start with \<open><\<close>:
  little-endian, standard sizes, no alignment. A repeat count as in \<open>7I\<close> is written
  with \<open>replicate\<close>.
\<close>

datatype field =
    Pad nat     \<comment> \<open>\<open>nx\<close>: n pad bytes, no value\<close>
  | Chars nat   \<comment> \<open>\<open>ns\<close>: a byte string of length n\<close>
  | U16         \<comment> \<open>\<open>H\<close>\<close>
  | S16         \<comment> \<open>\<open>h\<close>\<close>
  | U32         \<comment> \<open>\<open>I\<close>\<close>
  | F32         \<comment> \<open>\<open>f\<close>\<close>

datatype pyval = PyBytes "byte list" | PyInt int | PyFloat pyfloat

fun as_int :: "pyval \<Rightarrow> int" where
  "as_int (PyInt i) = i"

fun as_float :: "pyval \<Rightarrow> pyfloat" where
  "as_float (PyFloat f) = f"

fun as_bytes :: "pyval \<Rightarrow> byte list" where
  "as_bytes (PyBytes bs) = bs"

fun field_size :: "field \<Rightarrow> nat" where
  "field_size (Pad n) = n"
| "field_size (Chars n) = n"
| "field_size U16 = 2"
| "field_size S16 = 2"
| "field_size U32 = 4"
| "field_size F32 = 4"

definition calcsize :: "field list \<Rightarrow> nat" where
  "calcsize fmt = sum_list (map field_size fmt)"

text \<open>The unsigned value of a little-endian byte sequence.\<close>

fun le_int :: "byte list \<Rightarrow> int" where
  "le_int [] = 0"
| "le_int (b # bs) = uint b + 256 * le_int bs"

text \<open>Two's complement reading of a 16-bit value.\<close>

definition signed16 :: "int \<Rightarrow> int" where
  "signed16 n = (if n < 32768 then n else n - 65536)"

text \<open>
  The value of an IEEE-754 single-precision bit pattern: sign bit 31, exponent bits
  23 to 30 (bias 127), fraction bits 0 to 22. Exponent 255 is an infinity (fraction 0)
  or a NaN; exponent 0 is a subnormal, \<open>m * 2^-149\<close>; otherwise the value is
  \<open>(2^23 + m) * 2^(e - 150)\<close>.
\<close>

definition float32 :: "int \<Rightarrow> pyfloat" where
  "float32 w =
     (let negative = (w div 2 ^ 31 mod 2 = 1);
          e = w div 2 ^ 23 mod 256;
          m = w mod 2 ^ 23
      in if e = 255 then (if m = 0 then Infinity negative else NaN)
         else Finite ((if negative then - 1 else 1)
                * of_int (if e = 0 then 2 * m else (2 ^ 23 + m) * 2 ^ nat e) / 2 ^ 150))"

text \<open>Decoding the fields of a format one after the other from the bytes at the cursor.\<close>

fun unpack :: "field list \<Rightarrow> byte list \<Rightarrow> pyval list" where
  "unpack [] bs = []"
| "unpack (Pad n # fmt) bs = unpack fmt (drop n bs)"
| "unpack (Chars n # fmt) bs = PyBytes (take n bs) # unpack fmt (drop n bs)"
| "unpack (U16 # fmt) bs = PyInt (le_int (take 2 bs)) # unpack fmt (drop 2 bs)"
| "unpack (S16 # fmt) bs = PyInt (signed16 (le_int (take 2 bs))) # unpack fmt (drop 2 bs)"
| "unpack (U32 # fmt) bs = PyInt (le_int (take 4 bs)) # unpack fmt (drop 4 bs)"
| "unpack (F32 # fmt) bs = PyFloat (float32 (le_int (take 4 bs))) # unpack fmt (drop 4 bs)"

text \<open>
  \<open>struct.unpack_from(format, buffer, offset)\<close>. A negative offset counts from the end
  of the buffer. The call raises \<open>struct.error\<close> unless the whole structure lies inside
  the buffer.
\<close>

definition unpack_from :: "field list \<Rightarrow> byte list \<Rightarrow> int \<Rightarrow> error + pyval list" where
  "unpack_from fmt buffer offset =
     (let size = int (calcsize fmt); len = int (length buffer)
      in if offset < 0 \<and> (offset + size > 0 \<or> offset + len < 0) then Inl StructError
         else let off = (if offset < 0 then offset + len else offset)
              in if len - off < size then Inl StructError
                 else Inr (unpack fmt (drop (nat off) buffer)))"

text \<open>Python list indexing: a negative index counts from the end.\<close>

definition py_index :: "'a list \<Rightarrow> int \<Rightarrow> error + 'a" where
  "py_index xs i =
     (let n = int (length xs); j = (if i < 0 then i + n else i)
      in if j < 0 \<or> j \<ge> n then Inl IndexError else Inr (xs ! nat j))"

text \<open>\<open>range(n)\<close> for an integer n.\<close>

definition py_range :: "int \<Rightarrow> int list" where
  "py_range n = [0..n - 1]"

text \<open>
  The product \<open>i * f\<close> of a Python integer and a float (exact for the operands the
  decoder passes, see above). Zero times an infinity is NaN.
\<close>

fun int_times_float :: "int \<Rightarrow> pyfloat \<Rightarrow> pyfloat" where
  "int_times_float i (Finite r) = Finite (of_int i * r)"
| "int_times_float i (Infinity negative) =
     (if i = 0 then NaN else Infinity (negative \<noteq> (i < 0)))"
| "int_times_float i NaN = NaN"

section \<open>Data structures\<close>

text \<open>\<open>class Vertex\<close>: the three coordinates.\<close>

record Vertex =
  x :: pyfloat
  y :: pyfloat
  z :: pyfloat

text \<open>
  \<open>class Tri\<close>: the fields set by \<open>__init__\<close>. Python's \<open>&\<close> and \<open>>>\<close> on its
  unbounded integers are \<open>AND\<close> and \<open>drop_bit\<close> on \<open>int\<close>.
\<close>

record Tri =
  vertex_indices :: "int list"
  neighbour_indices :: "int list"
  data :: int
  passable :: int
  battle :: int
  location :: int
  soundType :: int

definition Tri_init :: "int list \<Rightarrow> int list \<Rightarrow> int \<Rightarrow> Tri" where
  "Tri_init v_indices n_indices d =
     \<lparr> vertex_indices = v_indices,
       neighbour_indices = n_indices,
       data = d,
       passable = d AND 127,
       battle = (drop_bit 7 d) AND 3,
       location = (drop_bit 11 d) AND 3,
       soundType = (drop_bit 15 d) AND 3 \<rparr>"

section \<open>Colour mapping\<close>

text \<open>
  The dictionary \<open>PASSABILITY_COLORS\<close>, in the order of its literal: four single keys,
  then the keys of \<open>range(48, 64)\<close>. No key occurs twice, so the first match of the
  association list is the dictionary's entry.
\<close>

definition PASSABILITY_COLORS :: "(int \<times> string) list" where
  "PASSABILITY_COLORS =
     [(0, ''green''), (1, ''red''), (2, ''orange''), (14, ''yellow'')]
     @ map (\<lambda>i. (i, ''purple'')) [48..63]"

definition DEFAULT_COLOR :: string where
  "DEFAULT_COLOR = ''gray''"

definition get_passability_color :: "int \<Rightarrow> string" where
  "get_passability_color pass_val =
     (case map_of PASSABILITY_COLORS pass_val of
        None \<Rightarrow> DEFAULT_COLOR
      | Some c \<Rightarrow> c)"

text \<open>
  The legend drawn by \<open>visualize_navmesh\<close>: the label shown for each colour.
\<close>

definition legend_elements :: "(string \<times> string) list" where
  "legend_elements =
     [(''Passable'', ''green''), (''Blocked'', ''red''), (''Block NPC'', ''orange''),
      (''Block Player'', ''yellow''), (''Scripted'', ''purple''), (''Other'', ''gray'')]"

definition legend_label :: "string \<Rightarrow> string option" where
  "legend_label color = map_of (map (\<lambda>(label, c). (c, label)) legend_elements) color"

section \<open>File parsing\<close>

text \<open>What \<open>open(file_path, 'rb')\<close> and \<open>f.read()\<close> find at a path.\<close>

datatype file_state = NoSuchFile | Unreadable | Content "byte list"

text \<open>The format strings of \<open>parse_map_file\<close>.\<close>

definition header_format :: "field list" where
  "header_format = [Chars 4, Pad 12, U32, U32, U32] @ replicate 7 U32 @ [U32]"

definition navmesh_format :: "field list" where
  "navmesh_format = [Pad 10, U16, F32, Pad 8, U32, U32]"

definition vertex_format :: "field list" where
  "vertex_format = [S16, S16, S16, Pad 2]"

definition tri_info_format :: "field list" where
  "tri_info_format = [Pad 8, U32, U32]"

definition tri_format :: "field list" where
  "tri_format = replicate 3 U16 @ replicate 3 S16 @ [U32]"

text \<open>The byte string \<open>b'MAP1'\<close>.\<close>

definition MAP1 :: "byte list" where
  "MAP1 = [0x4D, 0x41, 0x50, 0x31]"

text \<open>
  The loop over \<open>range(vertex_count)\<close>: one record is unpacked per index and the scaled
  vertex is appended to the list built so far.
\<close>

fun vertices_loop ::
  "byte list \<Rightarrow> int \<Rightarrow> int \<Rightarrow> pyfloat \<Rightarrow> int list \<Rightarrow> Vertex list \<Rightarrow> error + Vertex list"
where
  "vertices_loop content vertices_abs_addr vertex_size scale [] vertices = Inr vertices"
| "vertices_loop content vertices_abs_addr vertex_size scale (i # rest) vertices =
     (let offset = vertices_abs_addr + i * vertex_size
      in case unpack_from vertex_format content offset of
           Inl e \<Rightarrow> Inl e
         | Inr v_data \<Rightarrow>
             vertices_loop content vertices_abs_addr vertex_size scale rest
               (vertices @ [\<lparr> x = int_times_float (as_int (v_data ! 0)) scale,
                              y = int_times_float (as_int (v_data ! 1)) scale,
                              z = int_times_float (as_int (v_data ! 2)) scale \<rparr>]))"

text \<open>The loop over \<open>range(tri_count)\<close>.\<close>

fun tris_loop ::
  "byte list \<Rightarrow> int \<Rightarrow> int \<Rightarrow> int list \<Rightarrow> Tri list \<Rightarrow> error + Tri list"
where
  "tris_loop content tris_abs_addr tri_size [] tris = Inr tris"
| "tris_loop content tris_abs_addr tri_size (i # rest) tris =
     (let offset = tris_abs_addr + i * tri_size
      in case unpack_from tri_format content offset of
           Inl e \<Rightarrow> Inl e
         | Inr t_data \<Rightarrow>
             (let vertex_indices = map as_int (take 3 t_data);
                  neighbour_indices = map as_int (take 3 (drop 3 t_data));
                  tri_data_bitfield = as_int (t_data ! 6)
              in tris_loop content tris_abs_addr tri_size rest
                   (tris @ [Tri_init vertex_indices neighbour_indices tri_data_bitfield])))"

text \<open>
  Sections 2 to 4 of the \<open>try\<close> block: the navmesh structure at the base address, the
  vertices, the triangle information and the triangles.
\<close>

definition parse_navmesh :: "byte list \<Rightarrow> int \<Rightarrow> error + (Vertex list \<times> Tri list)" where
  "parse_navmesh content navmesh_base_addr =
     (case unpack_from navmesh_format content navmesh_base_addr of
        Inl e \<Rightarrow> Inl e
      | Inr navmesh_data \<Rightarrow>
          (let vertex_count = as_int (navmesh_data ! 0);
               scale = as_float (navmesh_data ! 1);
               vertices_ptr = as_int (navmesh_data ! 2);
               tri_info_ptr = as_int (navmesh_data ! 3);
               vertex_size = int (calcsize vertex_format);
               vertices_abs_addr = navmesh_base_addr + vertices_ptr
           in case vertices_loop content vertices_abs_addr vertex_size scale
                     (py_range vertex_count) [] of
                Inl e \<Rightarrow> Inl e
              | Inr vertices \<Rightarrow>
                  (let tri_info_abs_addr = navmesh_base_addr + tri_info_ptr
                   in case unpack_from tri_info_format content tri_info_abs_addr of
                        Inl e \<Rightarrow> Inl e
                      | Inr tri_info_data \<Rightarrow>
                          (let tri_count = as_int (tri_info_data ! 0);
                               tris_ptr = as_int (tri_info_data ! 1);
                               tris_abs_addr = navmesh_base_addr + tris_ptr;
                               tri_size = int (calcsize tri_format)
                           in case tris_loop content tris_abs_addr tri_size
                                     (py_range tri_count) [] of
                                Inl e \<Rightarrow> Inl e
                              | Inr tris \<Rightarrow> Inr (vertices, tris)))))"

text \<open>
  The body of the \<open>try\<close> block once the content has been read: section 1 (the header
  and the magic check), then the above from the address found in the header. The result
  is either the two lists, or the way the block was left.
\<close>

definition parse_content :: "byte list \<Rightarrow> error + (Vertex list \<times> Tri list)" where
  "parse_content content =
     (case unpack_from header_format content 0 of
        Inl e \<Rightarrow> Inl e
      | Inr header_data \<Rightarrow>
          (let magic = as_bytes (header_data ! 0)
           in if magic \<noteq> MAP1 then Inl (BadMagic magic)
              else
                (let navmesh_base_addr = as_int (header_data ! 3)
                 in parse_navmesh content navmesh_base_addr)))"

text \<open>The whole \<open>try\<close> block: opening and reading the file, then the above.\<close>

definition parse_body :: "(string \<Rightarrow> file_state) \<Rightarrow> string \<Rightarrow> error + (Vertex list \<times> Tri list)" where
  "parse_body fs file_path =
     (case fs file_path of
        NoSuchFile \<Rightarrow> Inl FileNotFoundError
      | Unreadable \<Rightarrow> Inl OtherException
      | Content content \<Rightarrow> parse_content content)"

text \<open>
  \<open>parse_map_file\<close> with its handlers: the early return on a wrong magic and each
  \<open>except\<close> clause return \<open>(None, None)\<close>.
\<close>

definition parse_map_file ::
  "(string \<Rightarrow> file_state) \<Rightarrow> string \<Rightarrow> Vertex list option \<times> Tri list option" where
  "parse_map_file fs file_path =
     (case parse_body fs file_path of
        Inr (vertices, tris) \<Rightarrow> (Some vertices, Some tris)
      | Inl (BadMagic magic) \<Rightarrow> (None, None)
      | Inl FileNotFoundError \<Rightarrow> (None, None)
      | Inl StructError \<Rightarrow> (None, None)
      | Inl _ \<Rightarrow> (None, None))"

section \<open>Visualization\<close>

text \<open>Truthiness of a value that is \<open>None\<close> or a list.\<close>

definition truthy :: "'a list option \<Rightarrow> bool" where
  "truthy v = (case v of None \<Rightarrow> False | Some xs \<Rightarrow> xs \<noteq> [])"

text \<open>The list comprehension \<open>[vertices[i] for i in tri.vertex_indices]\<close>.\<close>

fun index_each :: "'a list \<Rightarrow> int list \<Rightarrow> error + 'a list" where
  "index_each xs [] = Inr []"
| "index_each xs (i # rest) =
     (case py_index xs i of
        Inl e \<Rightarrow> Inl e
      | Inr v \<Rightarrow> (case index_each xs rest of Inl e \<Rightarrow> Inl e | Inr vs \<Rightarrow> Inr (v # vs)))"

type_synonym polygon = "(pyfloat \<times> pyfloat \<times> pyfloat) list"

text \<open>
  The loop over the triangles of \<open>visualize_navmesh\<close>, with the lists \<open>polygons\<close> and
  \<open>colors\<close> built so far.
\<close>

fun polygons_loop ::
  "Vertex list \<Rightarrow> Tri list \<Rightarrow> polygon list \<Rightarrow> string list \<Rightarrow> error + (polygon list \<times> string list)"
where
  "polygons_loop vertices [] polygons colors = Inr (polygons, colors)"
| "polygons_loop vertices (tri # rest) polygons colors =
     (case index_each vertices (vertex_indices tri) of
        Inl e \<Rightarrow> Inl e
      | Inr points \<Rightarrow>
          if list_ex (\<lambda>i. i \<ge> int (length vertices)) (vertex_indices tri)
          then polygons_loop vertices rest polygons colors
          else polygons_loop vertices rest
                 (polygons @ [map (\<lambda>p. (x p, y p, z p)) points])
                 (colors @ [get_passability_color (passable tri)]))"

text \<open>
  \<open>visualize_navmesh\<close> up to the polygon collection handed to the plotting library:
  \<open>None\<close> is the return after "No data to visualize.", otherwise the polygons and their
  face colours.
\<close>

definition visualize_navmesh ::
  "Vertex list option \<Rightarrow> Tri list option \<Rightarrow> string
     \<Rightarrow> error + (polygon list \<times> string list) option" where
  "visualize_navmesh vertices tris filename =
     (if \<not> truthy vertices \<or> \<not> truthy tris then Inr None
      else case polygons_loop (the vertices) (the tris) [] [] of
             Inl e \<Rightarrow> Inl e
           | Inr plot \<Rightarrow> Inr (Some plot))"

section \<open>Main execution\<close>

datatype outcome =
    NoFileSelected
  | FailedToParse
  | Visualized "(polygon list \<times> string list) option"

text \<open>
  \<open>main\<close>, given the file system and the path returned by the file dialog (empty when
  the dialog was cancelled). An exception of \<open>visualize_navmesh\<close> is not caught.
\<close>

definition main :: "(string \<Rightarrow> file_state) \<Rightarrow> string \<Rightarrow> error + outcome" where
  "main fs file_path =
     (if file_path = [] then Inr NoFileSelected
      else
        (let (vertices, tris) = parse_map_file fs file_path
         in if truthy vertices \<and> truthy tris
            then (case visualize_navmesh vertices tris file_path of
                    Inl e \<Rightarrow> Inl e
                  | Inr shown \<Rightarrow> Inr (Visualized shown))
            else Inr FailedToParse))"

section \<open>The records of the binary layout\<close>

text \<open>
  The fields of the layout, read from the buffer at an absolute byte offset. They are
  used to state what the parser computes; the parser itself is the code above.
\<close>

definition u16_at :: "byte list \<Rightarrow> int \<Rightarrow> int" where
  "u16_at content offset = le_int (take 2 (drop (nat offset) content))"

definition s16_at :: "byte list \<Rightarrow> int \<Rightarrow> int" where
  "s16_at content offset = signed16 (u16_at content offset)"

definition u32_at :: "byte list \<Rightarrow> int \<Rightarrow> int" where
  "u32_at content offset = le_int (take 4 (drop (nat offset) content))"

definition f32_at :: "byte list \<Rightarrow> int \<Rightarrow> pyfloat" where
  "f32_at content offset = float32 (u32_at content offset)"

text \<open>
  The vertex decoded from the 8-byte record at an offset (three signed 16-bit
  components, each multiplied by the scale; the last two bytes are padding).
\<close>

definition vertex_at :: "byte list \<Rightarrow> pyfloat \<Rightarrow> int \<Rightarrow> Vertex" where
  "vertex_at content scale offset =
     \<lparr> x = int_times_float (s16_at content offset) scale,
       y = int_times_float (s16_at content (offset + 2)) scale,
       z = int_times_float (s16_at content (offset + 4)) scale \<rparr>"

text \<open>
  The triangle decoded from the 16-byte record at an offset: three unsigned 16-bit
  vertex indices, three signed 16-bit neighbour indices, the 32-bit attribute word.
\<close>

definition tri_at :: "byte list \<Rightarrow> int \<Rightarrow> Tri" where
  "tri_at content offset =
     Tri_init
       [u16_at content offset, u16_at content (offset + 2), u16_at content (offset + 4)]
       [s16_at content (offset + 6), s16_at content (offset + 8), s16_at content (offset + 10)]
       (u32_at content (offset + 12))"

text \<open>
  The stored fields of a buffer and the absolute addresses derived from them, as the
  layout places them: the base address is the third 32-bit field of the header, the
  navmesh structure lies at the base address, and the triangle information at the base
  address plus its stored pointer.
\<close>

definition navmesh_base_addr :: "byte list \<Rightarrow> int" where
  "navmesh_base_addr content = u32_at content 24"

definition vertex_count :: "byte list \<Rightarrow> int" where
  "vertex_count content = u16_at content (navmesh_base_addr content + 10)"

definition scale :: "byte list \<Rightarrow> pyfloat" where
  "scale content = f32_at content (navmesh_base_addr content + 12)"

definition vertices_ptr :: "byte list \<Rightarrow> int" where
  "vertices_ptr content = u32_at content (navmesh_base_addr content + 24)"

definition tri_info_ptr :: "byte list \<Rightarrow> int" where
  "tri_info_ptr content = u32_at content (navmesh_base_addr content + 28)"

definition vertices_abs_addr :: "byte list \<Rightarrow> int" where
  "vertices_abs_addr content = navmesh_base_addr content + vertices_ptr content"

definition tri_info_abs_addr :: "byte list \<Rightarrow> int" where
  "tri_info_abs_addr content = navmesh_base_addr content + tri_info_ptr content"

definition tri_count :: "byte list \<Rightarrow> int" where
  "tri_count content = u32_at content (tri_info_abs_addr content + 8)"

definition tris_ptr :: "byte list \<Rightarrow> int" where
  "tris_ptr content = u32_at content (tri_info_abs_addr content + 12)"

definition tris_abs_addr :: "byte list \<Rightarrow> int" where
  "tris_abs_addr content = navmesh_base_addr content + tris_ptr content"

section \<open>Synthetic maps\<close>

text \<open>
  A minimal map of 148 bytes: the header with base address 60, the navmesh structure
  at 60 (three vertices, scale bits \<open>0x3C23D70A\<close>, vertex table at 60 + 32, triangle
  information at 60 + 56), three vertex records, the triangle information (one triangle,
  table at 60 + 72) and one triangle record with the vertex indices 0, 1, 2 and the
  attribute word 0.
\<close>

definition example_map :: "byte list" where
  "example_map =
    [77, 65, 80, 49, 0, 0, 0, 0, 0, 0, 0, 0, 0, 0, 0, 0, 1, 0, 0, 0, 2, 0, 0, 0, 60, 0, 0,
     0, 3, 0, 0, 0, 4, 0, 0, 0, 5, 0, 0, 0, 6, 0, 0, 0, 7, 0, 0, 0, 8, 0, 0, 0, 9, 0, 0, 0,
     10, 0, 0, 0, 0, 0, 0, 0, 0, 0, 0, 0, 0, 0, 3, 0, 10, 215, 35, 60, 0, 0, 0, 0, 0, 0, 0,
     0, 32, 0, 0, 0, 56, 0, 0, 0, 100, 0, 56, 255, 44, 1, 0, 0, 0, 0, 1, 0, 255, 255, 0, 0,
     255, 127, 0, 128, 5, 0, 0, 0, 0, 0, 0, 0, 0, 0, 0, 0, 1, 0, 0, 0, 72, 0, 0, 0, 0, 0,
     1, 0, 2, 0, 255, 255, 1, 0, 255, 255, 0, 0, 0, 0]"

text \<open>
  The same map with a second triangle whose third vertex index is 3, one past the last
  vertex (164 bytes).
\<close>

definition dangling_map :: "byte list" where
  "dangling_map =
    [77, 65, 80, 49, 0, 0, 0, 0, 0, 0, 0, 0, 0, 0, 0, 0, 1, 0, 0, 0, 2, 0, 0, 0, 60, 0, 0,
     0, 3, 0, 0, 0, 4, 0, 0, 0, 5, 0, 0, 0, 6, 0, 0, 0, 7, 0, 0, 0, 8, 0, 0, 0, 9, 0, 0, 0,
     10, 0, 0, 0, 0, 0, 0, 0, 0, 0, 0, 0, 0, 0, 3, 0, 10, 215, 35, 60, 0, 0, 0, 0, 0, 0, 0,
     0, 32, 0, 0, 0, 56, 0, 0, 0, 100, 0, 56, 255, 44, 1, 0, 0, 0, 0, 1, 0, 255, 255, 0, 0,
     255, 127, 0, 128, 5, 0, 0, 0, 0, 0, 0, 0, 0, 0, 0, 0, 2, 0, 0, 0, 72, 0, 0, 0, 0, 0,
     1, 0, 2, 0, 255, 255, 1, 0, 255, 255, 0, 0, 0, 0, 0, 0, 1, 0, 3, 0, 0, 0, 255, 255,
     255, 255, 1, 128, 0, 0]"

text \<open>A well-formed map with no vertex and no triangle (108 bytes).\<close>

definition empty_map :: "byte list" where
  "empty_map =
    [77, 65, 80, 49, 0, 0, 0, 0, 0, 0, 0, 0, 0, 0, 0, 0, 1, 0, 0, 0, 2, 0, 0, 0, 60, 0, 0,
     0, 3, 0, 0, 0, 4, 0, 0, 0, 5, 0, 0, 0, 6, 0, 0, 0, 7, 0, 0, 0, 8, 0, 0, 0, 9, 0, 0, 0,
     10, 0, 0, 0, 0, 0, 0, 0, 0, 0, 0, 0, 0, 0, 0, 0, 10, 215, 35, 60, 0, 0, 0, 0, 0, 0, 0,
     0, 32, 0, 0, 0, 32, 0, 0, 0, 0, 0, 0, 0, 0, 0, 0, 0, 0, 0, 0, 0, 48, 0, 0, 0]"

text \<open>
  The minimal map with four more bytes between the header and the navmesh structure:
  the base address in the header is 64, every stored pointer is as before (152 bytes).
\<close>

definition moved_map :: "byte list" where
  "moved_map =
    [77, 65, 80, 49, 0, 0, 0, 0, 0, 0, 0, 0, 0, 0, 0, 0, 1, 0, 0, 0, 2, 0, 0, 0, 64, 0, 0,
     0, 3, 0, 0, 0, 4, 0, 0, 0, 5, 0, 0, 0, 6, 0, 0, 0, 7, 0, 0, 0, 8, 0, 0, 0, 9, 0, 0, 0,
     10, 0, 0, 0, 170, 187, 204, 221, 0, 0, 0, 0, 0, 0, 0, 0, 0, 0, 3, 0, 10, 215, 35, 60,
     0, 0, 0, 0, 0, 0, 0, 0, 32, 0, 0, 0, 56, 0, 0, 0, 100, 0, 56, 255, 44, 1, 0, 0, 0, 0,
     1, 0, 255, 255, 0, 0, 255, 127, 0, 128, 5, 0, 0, 0, 0, 0, 0, 0, 0, 0, 0, 0, 1, 0, 0,
     0, 72, 0, 0, 0, 0, 0, 1, 0, 2, 0, 255, 255, 1, 0, 255, 255, 0, 0, 0, 0]"

section \<open>Closed form of the parser\<close>

text \<open>
  What each call of \<open>unpack_from\<close> in the parser returns, what the two loops return,
  and from these the result of the parser in terms of the fields of the layout.
\<close>

lemma replicate_7: "replicate 7 a = [a, a, a, a, a, a, a]"
  by (simp add: numeral_eq_Suc)

lemma replicate_3: "replicate 3 a = [a, a, a]"
  by (simp add: numeral_eq_Suc)

lemma calcsizes:
  "calcsize header_format = 60" "calcsize navmesh_format = 32" "calcsize vertex_format = 8"
  "calcsize tri_info_format = 16" "calcsize tri_format = 16"
  by (simp_all add: calcsize_def header_format_def navmesh_format_def vertex_format_def
      tri_info_format_def tri_format_def replicate_7 replicate_3)

lemma unpack_from_nonneg:
  "0 \<le> offset \<Longrightarrow>
     unpack_from fmt buffer offset =
       (if int (length buffer) < offset + int (calcsize fmt) then Inl StructError
        else Inr (unpack fmt (drop (nat offset) buffer)))"
  by (auto simp: unpack_from_def Let_def)

lemma le_int_nonneg: "0 \<le> le_int bs"
  by (induction bs) auto

lemma le_int_bound: "le_int bs < 256 ^ length bs"
proof (induction bs)
  case Nil
  show ?case by simp
next
  case (Cons b bs)
  have "uint b < 256" using uint_bounded [of b] by simp
  with Cons show ?case by simp
qed

lemma drop_at: "0 \<le> offset \<Longrightarrow> drop k (drop (nat offset) content) = drop (nat (offset + int k)) content"
  by (simp add: nat_add_distrib add.commute)

lemma unpack_header:
  "0 \<le> offset \<Longrightarrow> unpack header_format (drop (nat offset) content) =
     [PyBytes (take 4 (drop (nat offset) content)),
      PyInt (u32_at content (offset + 16)), PyInt (u32_at content (offset + 20)),
      PyInt (u32_at content (offset + 24)), PyInt (u32_at content (offset + 28)),
      PyInt (u32_at content (offset + 32)), PyInt (u32_at content (offset + 36)),
      PyInt (u32_at content (offset + 40)), PyInt (u32_at content (offset + 44)),
      PyInt (u32_at content (offset + 48)), PyInt (u32_at content (offset + 52)),
      PyInt (u32_at content (offset + 56))]"
  by (simp add: header_format_def u32_at_def replicate_7 nat_add_distrib add.commute)

lemma unpack_navmesh:
  "0 \<le> offset \<Longrightarrow> unpack navmesh_format (drop (nat offset) content) =
     [PyInt (u16_at content (offset + 10)), PyFloat (f32_at content (offset + 12)),
      PyInt (u32_at content (offset + 24)), PyInt (u32_at content (offset + 28))]"
  by (simp add: navmesh_format_def u32_at_def u16_at_def f32_at_def nat_add_distrib add.commute)

lemma unpack_vertex:
  "0 \<le> offset \<Longrightarrow> unpack vertex_format (drop (nat offset) content) =
     [PyInt (s16_at content offset), PyInt (s16_at content (offset + 2)),
      PyInt (s16_at content (offset + 4))]"
  by (simp add: vertex_format_def s16_at_def u16_at_def nat_add_distrib add.commute
      del: add_2_eq_Suc add_2_eq_Suc')

lemma unpack_tri_info:
  "0 \<le> offset \<Longrightarrow> unpack tri_info_format (drop (nat offset) content) =
     [PyInt (u32_at content (offset + 8)), PyInt (u32_at content (offset + 12))]"
  by (simp add: tri_info_format_def u32_at_def nat_add_distrib add.commute)

lemma unpack_tri:
  "0 \<le> offset \<Longrightarrow> unpack tri_format (drop (nat offset) content) =
     [PyInt (u16_at content offset), PyInt (u16_at content (offset + 2)),
      PyInt (u16_at content (offset + 4)), PyInt (s16_at content (offset + 6)),
      PyInt (s16_at content (offset + 8)), PyInt (s16_at content (offset + 10)),
      PyInt (u32_at content (offset + 12))]"
  by (simp add: tri_format_def replicate_3 u32_at_def s16_at_def u16_at_def nat_add_distrib
      add.commute del: add_2_eq_Suc add_2_eq_Suc')

lemma u32_at_nonneg: "0 \<le> u32_at content offset"
  by (simp add: u32_at_def le_int_nonneg)

lemma u16_at_nonneg: "0 \<le> u16_at content offset"
  by (simp add: u16_at_def le_int_nonneg)

lemma u32_at_bound: "u32_at content offset < 2 ^ 32"
  using le_int_bound [of "take 4 (drop (nat offset) content)"]
    power_increasing [of "length (take 4 (drop (nat offset) content))" 4 "256::int"]
  by (simp add: u32_at_def)

lemma u16_at_bound: "u16_at content offset < 2 ^ 16"
  using le_int_bound [of "take 2 (drop (nat offset) content)"]
    power_increasing [of "length (take 2 (drop (nat offset) content))" 2 "256::int"]
  by (simp add: u16_at_def)

lemma vertices_loop_eq:
  assumes "0 \<le> a" and "\<forall>i\<in>set js. 0 \<le> i"
  shows "vertices_loop content a 8 sc js acc =
     (if \<forall>i\<in>set js. a + i * 8 + 8 \<le> int (length content)
      then Inr (acc @ map (\<lambda>i. vertex_at content sc (a + i * 8)) js)
      else Inl StructError)"
  using assms(2)
proof (induction js arbitrary: acc)
  case Nil
  show ?case by simp
next
  case (Cons j js)
  have j: "0 \<le> a + j * 8" using assms(1) Cons.prems by simp
  show ?case
    using Cons.prems Cons.IH
    by (simp add: unpack_from_nonneg [OF j] calcsizes unpack_vertex [OF j] vertex_at_def
        add.assoc)
qed

lemma tris_loop_eq:
  assumes "0 \<le> a" and "\<forall>i\<in>set js. 0 \<le> i"
  shows "tris_loop content a 16 js acc =
     (if \<forall>i\<in>set js. a + i * 16 + 16 \<le> int (length content)
      then Inr (acc @ map (\<lambda>i. tri_at content (a + i * 16)) js)
      else Inl StructError)"
  using assms(2)
proof (induction js arbitrary: acc)
  case Nil
  show ?case by simp
next
  case (Cons j js)
  have j: "0 \<le> a + j * 16" using assms(1) Cons.prems by simp
  show ?case
    using Cons.prems Cons.IH
    by (simp add: unpack_from_nonneg [OF j] calcsizes unpack_tri [OF j] tri_at_def
        add.assoc)
qed

lemma range_fits:
  fixes k :: int
  assumes "0 < k"
  shows "(\<forall>i\<in>set (py_range n). a + i * k + k \<le> L) \<longleftrightarrow> (n \<le> 0 \<or> a + n * k \<le> L)"
proof (cases "n \<le> 0")
  case True
  then show ?thesis by (simp add: py_range_def)
next
  case False
  have last: "a + (n - 1) * k + k = a + n * k" by (simp add: algebra_simps)
  have mono: "a + i * k + k \<le> a + n * k" if "i \<le> n - 1" for i
  proof -
    have "(i + 1) * k \<le> n * k" using that assms by (intro mult_right_mono) auto
    then show ?thesis by (simp add: algebra_simps)
  qed
  show ?thesis
  proof
    assume all: "\<forall>i\<in>set (py_range n). a + i * k + k \<le> L"
    have "n - 1 \<in> set (py_range n)" using False by (simp add: py_range_def)
    with all have "a + (n - 1) * k + k \<le> L" by blast
    then show "n \<le> 0 \<or> a + n * k \<le> L" using last by simp
  next
    assume "n \<le> 0 \<or> a + n * k \<le> L"
    then have le: "a + n * k \<le> L" using False by simp
    show "\<forall>i\<in>set (py_range n). a + i * k + k \<le> L"
    proof
      fix i assume "i \<in> set (py_range n)"
      then have "i \<le> n - 1" by (simp add: py_range_def)
      from mono [OF this] le show "a + i * k + k \<le> L" by linarith
    qed
  qed
qed

lemma range_nonneg: "\<forall>i\<in>set (py_range n). 0 \<le> i"
  by (simp add: py_range_def)

lemma vertices_loop_range:
  assumes "0 \<le> a"
  shows "vertices_loop content a 8 sc (py_range n) [] =
     (if n \<le> 0 \<or> a + n * 8 \<le> int (length content)
      then Inr (map (\<lambda>i. vertex_at content sc (a + i * 8)) (py_range n))
      else Inl StructError)"
  using vertices_loop_eq [OF assms range_nonneg, of content sc n "[]"]
    range_fits [of 8 n a "int (length content)"]
  by simp

lemma tris_loop_range:
  assumes "0 \<le> a"
  shows "tris_loop content a 16 (py_range n) [] =
     (if n \<le> 0 \<or> a + n * 16 \<le> int (length content)
      then Inr (map (\<lambda>i. tri_at content (a + i * 16)) (py_range n))
      else Inl StructError)"
  using tris_loop_eq [OF assms range_nonneg, of content n "[]"]
    range_fits [of 16 n a "int (length content)"]
  by simp

lemma parse_navmesh_eq:
  assumes "0 \<le> B"
  shows "parse_navmesh content B =
    (if int (length content) < B + 32 then Inl StructError
     else if 0 < u16_at content (B + 10)
            \<and> int (length content) < B + u32_at content (B + 24) + u16_at content (B + 10) * 8
     then Inl StructError
     else if int (length content) < B + u32_at content (B + 28) + 16 then Inl StructError
     else if 0 < u32_at content (B + u32_at content (B + 28) + 8)
            \<and> int (length content)
                < B + u32_at content (B + u32_at content (B + 28) + 12)
                  + u32_at content (B + u32_at content (B + 28) + 8) * 16
     then Inl StructError
     else Inr (map (\<lambda>i. vertex_at content (f32_at content (B + 12))
                         (B + u32_at content (B + 24) + i * 8))
                 (py_range (u16_at content (B + 10))),
               map (\<lambda>i. tri_at content
                         (B + u32_at content (B + u32_at content (B + 28) + 12) + i * 16))
                 (py_range (u32_at content (B + u32_at content (B + 28) + 8)))))"
proof -
  have va: "0 \<le> B + u32_at content (B + 24)"
    using assms u32_at_nonneg [of content "B + 24"] by simp
  have ti: "0 \<le> B + u32_at content (B + 28)"
    using assms u32_at_nonneg [of content "B + 28"] by simp
  have ta: "0 \<le> B + u32_at content (B + u32_at content (B + 28) + 12)"
    using assms u32_at_nonneg [of content "B + u32_at content (B + 28) + 12"] by simp
  show ?thesis
    unfolding parse_navmesh_def
    by (simp add: unpack_from_nonneg [OF assms] unpack_from_nonneg [OF ti] calcsizes
        unpack_navmesh [OF assms] unpack_tri_info [OF ti] Let_def
        vertices_loop_range [OF va] tris_loop_range [OF ta] not_less)
qed

lemma parse_content_eq:
  "parse_content content =
     (if int (length content) < 60 then Inl StructError
      else if take 4 content \<noteq> MAP1 then Inl (BadMagic (take 4 content))
      else parse_navmesh content (navmesh_base_addr content))"
  using unpack_header [of 0 content]
  by (simp add: parse_content_def unpack_from_nonneg calcsizes navmesh_base_addr_def Let_def)

lemma navmesh_base_addr_nonneg: "0 \<le> navmesh_base_addr content"
  by (simp add: navmesh_base_addr_def u32_at_nonneg)

lemma parse_content_layout:
  "parse_content content =
     (if int (length content) < 60 then Inl StructError
      else if take 4 content \<noteq> MAP1 then Inl (BadMagic (take 4 content))
      else if int (length content) < navmesh_base_addr content + 32 then Inl StructError
      else if 0 < vertex_count content
             \<and> int (length content) < vertices_abs_addr content + vertex_count content * 8
      then Inl StructError
      else if int (length content) < tri_info_abs_addr content + 16 then Inl StructError
      else if 0 < tri_count content
             \<and> int (length content) < tris_abs_addr content + tri_count content * 16
      then Inl StructError
      else Inr (map (\<lambda>i. vertex_at content (scale content) (vertices_abs_addr content + i * 8))
                  (py_range (vertex_count content)),
                map (\<lambda>i. tri_at content (tris_abs_addr content + i * 16))
                  (py_range (tri_count content))))"
  unfolding parse_content_eq parse_navmesh_eq [OF navmesh_base_addr_nonneg]
    vertex_count_def scale_def vertices_ptr_def tri_info_ptr_def vertices_abs_addr_def
    tri_info_abs_addr_def tri_count_def tris_ptr_def tris_abs_addr_def
  by (rule refl)

section \<open>The parser on the synthetic maps\<close>

lemma example_fields:
  "length example_map = 148"
  "take 4 example_map = MAP1"
  "navmesh_base_addr example_map = 60"
  "vertex_count example_map = 3"
  "vertices_abs_addr example_map = 92"
  "tri_info_abs_addr example_map = 116"
  "tri_count example_map = 1"
  "tris_abs_addr example_map = 132"
  by (simp_all add: example_map_def MAP1_def navmesh_base_addr_def vertex_count_def
      vertices_abs_addr_def vertices_ptr_def tri_info_abs_addr_def tri_info_ptr_def
      tri_count_def tris_abs_addr_def tris_ptr_def u32_at_def u16_at_def)

lemma example_scale: "scale example_map = Finite (5368709 / 536870912)"
  apply (simp only: scale_def example_fields)
  apply (simp add: f32_at_def u32_at_def float32_def example_map_def)
  done

lemma py_range_small:
  "py_range 0 = []" "py_range 1 = [0]" "py_range 2 = [0, 1]" "py_range 3 = [0, 1, 2]"
  by (simp_all add: py_range_def upto.simps)

lemma example_parse:
  "parse_content example_map =
     Inr ([\<lparr>x = Finite (134217725 / 134217728), y = Finite (- (134217725 / 67108864)),
            z = Finite (402653175 / 134217728)\<rparr>,
           \<lparr>x = Finite 0, y = Finite (5368709 / 536870912), z = Finite (- (5368709 / 536870912))\<rparr>,
           \<lparr>x = Finite (175916487803 / 536870912), y = Finite (- (5368709 / 16384)),
            z = Finite (26843545 / 536870912)\<rparr>],
          [Tri_init [0, 1, 2] [-1, 1, -1] 0])"
  apply (simp only: parse_content_layout example_fields example_scale py_range_small)
  apply (simp add: vertex_at_def tri_at_def s16_at_def u16_at_def u32_at_def
      signed16_def example_map_def)
  done

section \<open>Bitfield decoding and the colour table\<close>

lemma and_127: "(d::int) AND 127 = take_bit 7 d"
  using take_bit_eq_mask[of 7 d] by (simp add: mask_eq_exp_minus_1)

lemma and_3: "(e::int) AND 3 = take_bit 2 e"
  using take_bit_eq_mask[of 2 e] by (simp add: mask_eq_exp_minus_1)

lemma map_of_const: "map_of (map (\<lambda>i. (i, c)) ks) k = (if k \<in> set ks then Some c else None)"
  by (induction ks) auto

lemma fields_of_sum:
  fixes p b l s :: int
  assumes "0 \<le> p" "p < 128" "0 \<le> b" "b < 4" "0 \<le> l" "l < 4" "0 \<le> s" "s < 4"
  shows "(p + 128 * b + 2048 * l + 32768 * s) mod 128 = p"
    and "(p + 128 * b + 2048 * l + 32768 * s) div 128 mod 4 = b"
    and "(p + 128 * b + 2048 * l + 32768 * s) div 2048 mod 4 = l"
    and "(p + 128 * b + 2048 * l + 32768 * s) div 32768 mod 4 = s"
proof -
  let ?w = "p + 128 * b + 2048 * l + 32768 * s"
  have low: "(a + c * k) mod c = a \<and> (a + c * k) div c = k" if "0 \<le> a" "a < c" for a c k :: int
    using that by simp
  have r11: "0 \<le> p + 128 * b" "p + 128 * b < 2048" using assms by auto
  have r15: "0 \<le> p + 128 * b + 2048 * l" "p + 128 * b + 2048 * l < 32768" using assms by auto
  have d7: "?w mod 128 = p \<and> ?w div 128 = b + 4 * (4 * l + 64 * s)"
    using low [of p 128 "b + 4 * (4 * l + 64 * s)"] assms by (simp add: algebra_simps)
  have d11: "?w div 2048 = l + 4 * (4 * s)"
    using low [of "p + 128 * b" 2048 "l + 4 * (4 * s)"] r11 by (simp add: algebra_simps)
  have d15: "?w div 32768 = s"
    using low [of "p + 128 * b + 2048 * l" 32768 s] r15 by (simp add: algebra_simps)
  show "?w mod 128 = p" using d7 by simp
  show "?w div 128 mod 4 = b"
    using low [of b 4 "4 * l + 64 * s"] assms by (simp only: d7)
  show "?w div 2048 mod 4 = l"
    using low [of l 4 "4 * s"] assms by (simp only: d11)
  show "?w div 32768 mod 4 = s" using assms by (simp only: d15) simp
qed

lemma Tri_fields:
  "passable (Tri_init v n d) = take_bit 7 d"
  "battle (Tri_init v n d) = take_bit 2 (drop_bit 7 d)"
  "location (Tri_init v n d) = take_bit 2 (drop_bit 11 d)"
  "soundType (Tri_init v n d) = take_bit 2 (drop_bit 15 d)"
  by (simp_all add: Tri_init_def and_127 and_3)

lemma Tri_fields_arith:
  "passable (Tri_init v n d) = d mod 128"
  "battle (Tri_init v n d) = d div 128 mod 4"
  "location (Tri_init v n d) = d div 2048 mod 4"
  "soundType (Tri_init v n d) = d div 32768 mod 4"
  by (simp_all add: Tri_fields take_bit_eq_mod drop_bit_eq_div)

lemma Tri_fields_bit:
  "bit (passable (Tri_init v n d)) k = (k < 7 \<and> bit d k)"
  "bit (battle (Tri_init v n d)) k = (k < 2 \<and> bit d (7 + k))"
  "bit (location (Tri_init v n d)) k = (k < 2 \<and> bit d (11 + k))"
  "bit (soundType (Tri_init v n d)) k = (k < 2 \<and> bit d (15 + k))"
  by (simp_all add: Tri_fields bit_take_bit_iff bit_drop_bit_eq)

text \<open>
  Claim C5. For every attribute word, \<open>Tri.__init__\<close> extracts \<open>passable\<close> from bits
  0 to 6, \<open>battle\<close> from bits 7 and 8, \<open>location\<close> from bits 11 and 12 and
  \<open>soundType\<close> from bits 15 and 16, each by a mask and a shift of the word alone. The
  four bit ranges do not overlap: a word assembled from four field values decodes to
  exactly these values. The word \<open>0x00008001\<close> decodes to passable 1, battle 0,
  location 0, soundType 1, and the word with only bits 7 and 8 set to passable 0, battle 3.
\<close>

theorem Tri_bitfield_decode:
  "passable (Tri_init v n d) = d mod 128
   \<and> battle (Tri_init v n d) = d div 2 ^ 7 mod 4
   \<and> location (Tri_init v n d) = d div 2 ^ 11 mod 4
   \<and> soundType (Tri_init v n d) = d div 2 ^ 15 mod 4
   \<and> (\<forall>k. bit (passable (Tri_init v n d)) k = (k < 7 \<and> bit d k))
   \<and> (\<forall>k. bit (battle (Tri_init v n d)) k = (k < 2 \<and> bit d (7 + k)))
   \<and> (\<forall>k. bit (location (Tri_init v n d)) k = (k < 2 \<and> bit d (11 + k)))
   \<and> (\<forall>k. bit (soundType (Tri_init v n d)) k = (k < 2 \<and> bit d (15 + k)))
   \<and> (0 \<le> p \<and> p < 128 \<and> 0 \<le> b \<and> b < 4 \<and> 0 \<le> l \<and> l < 4 \<and> 0 \<le> s \<and> s < 4 \<longrightarrow>
        passable (Tri_init v n (p + 128 * b + 2048 * l + 32768 * s)) = p
        \<and> battle (Tri_init v n (p + 128 * b + 2048 * l + 32768 * s)) = b
        \<and> location (Tri_init v n (p + 128 * b + 2048 * l + 32768 * s)) = l
        \<and> soundType (Tri_init v n (p + 128 * b + 2048 * l + 32768 * s)) = s)
   \<and> passable (Tri_init v n 0x00008001) = 1
   \<and> battle (Tri_init v n 0x00008001) = 0
   \<and> location (Tri_init v n 0x00008001) = 0
   \<and> soundType (Tri_init v n 0x00008001) = 1
   \<and> passable (Tri_init v n (2 ^ 7 + 2 ^ 8)) = 0
   \<and> battle (Tri_init v n (2 ^ 7 + 2 ^ 8)) = 3"
  by (intro conjI allI impI;
      (rule Tri_fields_bit | simp add: Tri_fields_arith fields_of_sum))

theorem Tri_bitfield_decode_witness:
  "passable (Tri_init [0, 1, 2] [-1, -1, -1] (5 + 128 * 2 + 2048 * 1 + 32768 * 3)) = 5
   \<and> battle (Tri_init [0, 1, 2] [-1, -1, -1] (5 + 128 * 2 + 2048 * 1 + 32768 * 3)) = 2
   \<and> location (Tri_init [0, 1, 2] [-1, -1, -1] (5 + 128 * 2 + 2048 * 1 + 32768 * 3)) = 1
   \<and> soundType (Tri_init [0, 1, 2] [-1, -1, -1] (5 + 128 * 2 + 2048 * 1 + 32768 * 3)) = 3"
  using Tri_bitfield_decode [of "[0, 1, 2]" "[-1, -1, -1]" 0 5 2 1 3] by simp

text \<open>
  Claim C6. The passability classifier maps 0 to green (legend "Passable"), 1 to red
  ("Blocked"), 2 to orange ("Block NPC"), 14 to yellow ("Block Player"), every value from
  48 to 63 to purple ("Scripted") and every other value to gray ("Other").
\<close>

theorem get_passability_color_table:
  "get_passability_color v =
     (if v = 0 then ''green''
      else if v = 1 then ''red''
      else if v = 2 then ''orange''
      else if v = 14 then ''yellow''
      else if 48 \<le> v \<and> v \<le> 63 then ''purple''
      else ''gray'')
   \<and> legend_label ''green'' = Some ''Passable''
   \<and> legend_label ''red'' = Some ''Blocked''
   \<and> legend_label ''orange'' = Some ''Block NPC''
   \<and> legend_label ''yellow'' = Some ''Block Player''
   \<and> legend_label ''purple'' = Some ''Scripted''
   \<and> legend_label ''gray'' = Some ''Other''"
  unfolding get_passability_color_def PASSABILITY_COLORS_def DEFAULT_COLOR_def map_of_append
    map_add_def map_of_const set_upto legend_label_def legend_elements_def
  by simp

theorem get_passability_color_table_witness:
  "get_passability_color 0 = ''green'' \<and> get_passability_color 1 = ''red''
   \<and> get_passability_color 14 = ''yellow'' \<and> get_passability_color 48 = ''purple''
   \<and> get_passability_color 63 = ''purple'' \<and> get_passability_color 15 = ''gray''
   \<and> get_passability_color 64 = ''gray'' \<and> get_passability_color 47 = ''gray''"
  using get_passability_color_table [of 0] get_passability_color_table [of 1]
    get_passability_color_table [of 14] get_passability_color_table [of 48]
    get_passability_color_table [of 63] get_passability_color_table [of 15]
    get_passability_color_table [of 64] get_passability_color_table [of 47]
  by simp

section \<open>The header\<close>

lemma take4_drop:
  "n + 4 \<le> length xs \<Longrightarrow> take 4 (drop n xs) = [xs ! n, xs ! (n + 1), xs ! (n + 2), xs ! (n + 3)]"
proof -
  assume a: "n + 4 \<le> length xs"
  have "take 4 (drop n xs) = map (\<lambda>i. xs ! (n + i)) [0..<4]"
    using a by (intro nth_equalityI) auto
  also have "[0..<4] = [0, 1, 2, 3]" by (simp add: upt_rec)
  finally show ?thesis by simp
qed

lemma u32_at_bytes:
  assumes "0 \<le> offset" "offset + 4 \<le> int (length content)"
  shows "u32_at content offset =
     uint (content ! nat offset) + 256 * uint (content ! (nat offset + 1))
     + 65536 * uint (content ! (nat offset + 2)) + 16777216 * uint (content ! (nat offset + 3))"
proof -
  have "nat offset + 4 \<le> length content" using assms by linarith
  from take4_drop [OF this] show ?thesis by (simp add: u32_at_def)
qed

text \<open>
  Claim C4. The header is unpacked at offset 0 with the layout: 4 bytes of magic, 12
  pad bytes, three unsigned 32-bit little-endian fields (offsets 16, 20, 24), seven more
  32-bit fields (offsets 28 to 52, never used) and a last 32-bit field (offset 56); 60
  bytes in all. The navmesh base address is the third of the decoded 32-bit fields, the
  little-endian value of the bytes 24 to 27, and not the first.
\<close>

theorem header_layout:
  "calcsize header_format = 60
   \<and> unpack_from header_format content 0 =
       (if int (length content) < 60 then Inl StructError
        else Inr [PyBytes (take 4 content),
                  PyInt (u32_at content 16), PyInt (u32_at content 20),
                  PyInt (u32_at content 24),
                  PyInt (u32_at content 28), PyInt (u32_at content 32),
                  PyInt (u32_at content 36), PyInt (u32_at content 40),
                  PyInt (u32_at content 44), PyInt (u32_at content 48),
                  PyInt (u32_at content 52),
                  PyInt (u32_at content 56)])
   \<and> (60 \<le> int (length content) \<longrightarrow>
        u32_at content 24 =
          uint (content ! 24) + 256 * uint (content ! 25) + 65536 * uint (content ! 26)
          + 16777216 * uint (content ! 27))
   \<and> (60 \<le> int (length content) \<and> take 4 content = MAP1 \<longrightarrow>
        parse_content content = parse_navmesh content (u32_at content 24))"
proof (intro conjI impI)
  show "calcsize header_format = 60" by (rule calcsizes)
  show "unpack_from header_format content 0 =
       (if int (length content) < 60 then Inl StructError
        else Inr [PyBytes (take 4 content),
                  PyInt (u32_at content 16), PyInt (u32_at content 20),
                  PyInt (u32_at content 24),
                  PyInt (u32_at content 28), PyInt (u32_at content 32),
                  PyInt (u32_at content 36), PyInt (u32_at content 40),
                  PyInt (u32_at content 44), PyInt (u32_at content 48),
                  PyInt (u32_at content 52),
                  PyInt (u32_at content 56)])"
    using unpack_header [of 0 content] by (simp add: unpack_from_nonneg calcsizes)
next
  assume "60 \<le> int (length content)"
  then show "u32_at content 24 =
          uint (content ! 24) + 256 * uint (content ! 25) + 65536 * uint (content ! 26)
          + 16777216 * uint (content ! 27)"
    using u32_at_bytes [of 24 content] by simp
next
  assume "60 \<le> int (length content) \<and> take 4 content = MAP1"
  then show "parse_content content = parse_navmesh content (u32_at content 24)"
    by (simp add: parse_content_eq navmesh_base_addr_def)
qed

theorem header_layout_witness:
  "60 \<le> int (length example_map) \<and> take 4 example_map = MAP1
   \<and> u32_at example_map 16 = 1 \<and> u32_at example_map 20 = 2 \<and> u32_at example_map 24 = 60
   \<and> parse_content example_map = parse_navmesh example_map 60"
proof -
  have f: "u32_at example_map 16 = 1" "u32_at example_map 20 = 2" "u32_at example_map 24 = 60"
    by (simp_all add: u32_at_def example_map_def)
  show ?thesis
    using header_layout [of example_map] by (simp add: example_fields f)
qed

section \<open>The magic check\<close>

text \<open>
  The four bytes "MAP2" are a buffer whose first four bytes are not "MAP1" and which is
  shorter than the header: unpacking the header raises \<open>struct.error\<close> before the magic
  is looked at.
\<close>

theorem bad_magic_short_buffer_counterexample:
  "take 4 [0x4D, 0x41, 0x50, 0x32] \<noteq> MAP1
   \<and> parse_content [0x4D, 0x41, 0x50, 0x32] = Inl StructError"
  by (simp add: parse_content_eq MAP1_def)

text \<open>
  Claim C2, amended. For every buffer of at least 60 bytes (the size of the header)
  whose first 4 bytes are not "MAP1", parsing fails with \<open>BadMagic\<close> carrying those 4
  bytes, whatever the rest of the buffer is. Every buffer shorter than 60 bytes fails
  with \<open>struct.error\<close>, whatever its first bytes are.
\<close>

theorem bad_magic_after_full_header:
  "(take 4 content \<noteq> MAP1 \<and> 60 \<le> int (length content) \<longrightarrow>
      parse_content content = Inl (BadMagic (take 4 content)))
   \<and> (int (length short) < 60 \<longrightarrow> parse_content short = Inl StructError)"
  by (simp add: parse_content_eq)

theorem bad_magic_after_full_header_witness:
  "take 4 (0x58 # tl example_map) \<noteq> MAP1
   \<and> 60 \<le> int (length (0x58 # tl example_map))
   \<and> parse_content (0x58 # tl example_map) = Inl (BadMagic [0x58, 0x41, 0x50, 0x31])
   \<and> take 4 (take 59 example_map) = MAP1
   \<and> int (length (take 59 example_map)) < 60
   \<and> parse_content (take 59 example_map) = Inl StructError
   \<and> take 4 (take 59 (0x58 # tl example_map)) \<noteq> MAP1
   \<and> int (length (take 59 (0x58 # tl example_map))) < 60
   \<and> parse_content (take 59 (0x58 # tl example_map)) = Inl StructError"
proof -
  have a: "take 4 (0x58 # tl example_map) \<noteq> MAP1 \<and> 60 \<le> int (length (0x58 # tl example_map))"
    by (simp add: example_map_def MAP1_def)
  have b: "int (length (take 59 example_map)) < 60" by (simp add: example_map_def)
  have c: "int (length (take 59 (0x58 # tl example_map))) < 60" by (simp add: example_map_def)
  have m: "take 4 (take 59 example_map) = MAP1"
    "take 4 (take 59 (0x58 # tl example_map)) \<noteq> MAP1"
    by (simp_all add: example_map_def MAP1_def)
  from bad_magic_after_full_header [where content = "0x58 # tl example_map"
      and short = "take 59 example_map"] a b
  have 1: "parse_content (0x58 # tl example_map) = Inl (BadMagic (take 4 (0x58 # tl example_map)))
      \<and> parse_content (take 59 example_map) = Inl StructError"
    by blast
  from bad_magic_after_full_header [where short = "take 59 (0x58 # tl example_map)"] c
  have 2: "parse_content (take 59 (0x58 # tl example_map)) = Inl StructError"
    by blast
  have t: "take 4 (0x58 # tl example_map) = [0x58, 0x41, 0x50, 0x31]"
    by (simp add: example_map_def)
  from 1 2 a b c m show ?thesis by (simp only: t simp_thms)
qed

section \<open>Reads beyond the buffer\<close>

lemma take_prefix_bytes:
  "k + w \<le> n \<Longrightarrow> take w (drop k (take n xs)) = take w (drop k xs)"
  by (simp add: drop_take min_def)

lemma u32_at_take:
  "0 \<le> offset \<Longrightarrow> offset + 4 \<le> int n \<Longrightarrow> u32_at (take n content) offset = u32_at content offset"
  by (simp add: u32_at_def take_prefix_bytes)

lemma u16_at_take:
  "0 \<le> offset \<Longrightarrow> offset + 2 \<le> int n \<Longrightarrow> u16_at (take n content) offset = u16_at content offset"
  by (simp add: u16_at_def take_prefix_bytes)

lemma struct_error_iff:
  "parse_content content = Inl StructError \<longleftrightarrow>
     (int (length content) < 60
      \<or> take 4 content = MAP1
        \<and> (int (length content) < navmesh_base_addr content + 32
           \<or> 0 < vertex_count content
             \<and> int (length content) < vertices_abs_addr content + vertex_count content * 8
           \<or> int (length content) < tri_info_abs_addr content + 16
           \<or> 0 < tri_count content
             \<and> int (length content) < tris_abs_addr content + tri_count content * 16))"
  by (simp add: parse_content_layout)

lemma parse_success_iff:
  "parse_content content = Inr (vertices, tris) \<longleftrightarrow>
     (60 \<le> int (length content) \<and> take 4 content = MAP1
      \<and> navmesh_base_addr content + 32 \<le> int (length content)
      \<and> (vertex_count content \<le> 0
         \<or> vertices_abs_addr content + vertex_count content * 8 \<le> int (length content))
      \<and> tri_info_abs_addr content + 16 \<le> int (length content)
      \<and> (tri_count content \<le> 0
         \<or> tris_abs_addr content + tri_count content * 16 \<le> int (length content))
      \<and> vertices = map (\<lambda>i. vertex_at content (scale content) (vertices_abs_addr content + i * 8))
                      (py_range (vertex_count content))
      \<and> tris = map (\<lambda>i. tri_at content (tris_abs_addr content + i * 16))
                  (py_range (tri_count content)))"
  by (auto simp add: parse_content_layout not_less)

lemma py_range_empty_iff: "py_range n = [] \<longleftrightarrow> n \<le> 0"
  by (auto simp: py_range_def)

lemma truncated_struct_error:
  assumes ok: "parse_content content = Inr (vertices, tris)"
    and tris: "tris \<noteq> []"
    and last: "int (length content) = tris_abs_addr content + tri_count content * 16"
    and n: "n < length content"
  shows "parse_content (take n content) = Inl StructError"
proof -
  let ?c = "take n content"
  have len: "min (length content) n = n" using n by simp
  from ok have magic: "take 4 content = MAP1"
    and nav: "navmesh_base_addr content + 32 \<le> int (length content)"
    and info: "tri_info_abs_addr content + 16 \<le> int (length content)"
    and ts: "tris = map (\<lambda>i. tri_at content (tris_abs_addr content + i * 16))
                      (py_range (tri_count content))"
    by (simp_all add: parse_success_iff)
  from tris ts have tc: "0 < tri_count content"
    by (auto simp: py_range_empty_iff not_le)
  show ?thesis
  proof (cases "int n < 60")
    case True
    then show ?thesis by (simp add: struct_error_iff len)
  next
    case header: False
    then have magic': "take (min 4 n) content = MAP1" using magic by (simp add: min_def)
    have base: "navmesh_base_addr ?c = navmesh_base_addr content"
      using header by (simp add: navmesh_base_addr_def u32_at_take)
    show ?thesis
    proof (cases "int n < navmesh_base_addr content + 32")
      case True
      then show ?thesis by (simp add: struct_error_iff len magic' base)
    next
      case navmesh: False
      have b0: "0 \<le> navmesh_base_addr content" by (rule navmesh_base_addr_nonneg)
      have tip: "tri_info_ptr ?c = tri_info_ptr content"
        using navmesh b0 by (simp add: tri_info_ptr_def base u32_at_take)
      have tia: "tri_info_abs_addr ?c = tri_info_abs_addr content"
        by (simp add: tri_info_abs_addr_def base tip)
      show ?thesis
      proof (cases "int n < tri_info_abs_addr content + 16")
        case True
        then show ?thesis by (simp add: struct_error_iff len magic' tia)
      next
        case triinfo: False
        have t0: "0 \<le> tri_info_abs_addr content"
          using b0 u32_at_nonneg [of content "navmesh_base_addr content + 28"]
          by (simp add: tri_info_abs_addr_def tri_info_ptr_def)
        have tc': "tri_count ?c = tri_count content"
          using triinfo t0 by (simp add: tri_count_def tia u32_at_take)
        have tp': "tris_ptr ?c = tris_ptr content"
          using triinfo t0 by (simp add: tris_ptr_def tia u32_at_take)
        have ta: "tris_abs_addr ?c = tris_abs_addr content"
          by (simp add: tris_abs_addr_def base tp')
        have "int n < tris_abs_addr content + tri_count content * 16"
          using n last by simp
        with tc show ?thesis by (simp add: struct_error_iff len magic' ta tc')
      qed
    qed
  qed
qed

lemma parse_map_file_failure:
  "parse_body fs file_path = Inl e \<Longrightarrow> parse_map_file fs file_path = (None, None)"
  by (cases e) (simp_all add: parse_map_file_def)

text \<open>
  Claim C7. Parsing fails with \<open>struct.error\<close> exactly when a read that is performed
  exceeds the buffer: the header, or (the magic being right) the navmesh structure, a
  vertex record, the triangle information or a triangle record. Then
  \<open>parse_map_file\<close> returns \<open>(None, None)\<close>: no list, not even the vertices and
  triangles decoded before the failing read. In particular, when a buffer parses, has
  a triangle, and its last triangle record ends at the end of the buffer, every proper
  prefix of it (such as the buffer without its last byte) fails with \<open>struct.error\<close>.
\<close>

theorem out_of_bounds_no_mesh:
  "(parse_content content = Inl StructError \<longleftrightarrow>
      (int (length content) < 60
       \<or> take 4 content = MAP1
         \<and> (int (length content) < navmesh_base_addr content + 32
            \<or> 0 < vertex_count content
              \<and> int (length content) < vertices_abs_addr content + vertex_count content * 8
            \<or> int (length content) < tri_info_abs_addr content + 16
            \<or> 0 < tri_count content
              \<and> int (length content) < tris_abs_addr content + tri_count content * 16)))
   \<and> (parse_content content = Inl StructError \<and> fs file_path = Content content \<longrightarrow>
        parse_body fs file_path = Inl StructError
        \<and> parse_map_file fs file_path = (None, None))
   \<and> (parse_content content = Inr (vertices, tris) \<and> tris \<noteq> []
        \<and> int (length content) = tris_abs_addr content + tri_count content * 16
        \<and> n < length content \<longrightarrow>
        parse_content (take n content) = Inl StructError)"
proof (intro conjI impI)
  show "parse_content content = Inl StructError \<longleftrightarrow>
      (int (length content) < 60
       \<or> take 4 content = MAP1
         \<and> (int (length content) < navmesh_base_addr content + 32
            \<or> 0 < vertex_count content
              \<and> int (length content) < vertices_abs_addr content + vertex_count content * 8
            \<or> int (length content) < tri_info_abs_addr content + 16
            \<or> 0 < tri_count content
              \<and> int (length content) < tris_abs_addr content + tri_count content * 16))"
    by (rule struct_error_iff)
next
  assume a: "parse_content content = Inl StructError \<and> fs file_path = Content content"
  then show b: "parse_body fs file_path = Inl StructError"
    by (simp add: parse_body_def)
  from parse_map_file_failure [OF b] show "parse_map_file fs file_path = (None, None)" .
next
  assume "parse_content content = Inr (vertices, tris) \<and> tris \<noteq> []
        \<and> int (length content) = tris_abs_addr content + tri_count content * 16
        \<and> n < length content"
  then show "parse_content (take n content) = Inl StructError"
    using truncated_struct_error [of content vertices tris n] by simp
qed

theorem out_of_bounds_no_mesh_witness:
  "parse_content example_map =
     Inr ([\<lparr>x = Finite (134217725 / 134217728), y = Finite (- (134217725 / 67108864)),
            z = Finite (402653175 / 134217728)\<rparr>,
           \<lparr>x = Finite 0, y = Finite (5368709 / 536870912), z = Finite (- (5368709 / 536870912))\<rparr>,
           \<lparr>x = Finite (175916487803 / 536870912), y = Finite (- (5368709 / 16384)),
            z = Finite (26843545 / 536870912)\<rparr>],
          [Tri_init [0, 1, 2] [-1, 1, -1] 0])
   \<and> int (length example_map) = tris_abs_addr example_map + tri_count example_map * 16
   \<and> 147 < length example_map
   \<and> parse_content (take 147 example_map) = Inl StructError
   \<and> parse_map_file (\<lambda>p. Content (take 147 example_map)) ''map.vpa'' = (None, None)"
proof -
  have t: "parse_content (take 147 example_map) = Inl StructError"
    using out_of_bounds_no_mesh [of example_map _ _ _ "[Tri_init [0, 1, 2] [-1, 1, -1] 0]" 147]
    by (simp add: example_parse example_fields)
  have "parse_map_file (\<lambda>p. Content (take 147 example_map)) ''map.vpa'' = (None, None)"
    using out_of_bounds_no_mesh [of "take 147 example_map"
        "\<lambda>p. Content (take 147 example_map)" "''map.vpa''"] t
    by simp
  with t show ?thesis by (simp add: example_parse example_fields)
qed

section \<open>Vertex records and the scale\<close>

lemma length_py_range: "length (py_range n) = nat n"
  by (simp add: py_range_def)

lemma nth_py_range: "i < nat n \<Longrightarrow> py_range n ! i = int i"
  by (simp add: py_range_def)

lemma vertex_count_nonneg: "0 \<le> vertex_count content"
  by (simp add: vertex_count_def u16_at_nonneg)

lemma signed16_range: "0 \<le> n \<Longrightarrow> n < 65536 \<Longrightarrow> - 32768 \<le> signed16 n \<and> signed16 n < 32768"
  by (simp add: signed16_def)

lemma s16_at_range: "- 32768 \<le> s16_at content offset \<and> s16_at content offset < 32768"
  using signed16_range [of "u16_at content offset"] u16_at_nonneg [of content offset]
    u16_at_bound [of content offset]
  by (simp add: s16_at_def)

lemma float32_hundredth: "float32 0x3C23D70A = Finite (10737418 / 2 ^ 30)"
  by (simp add: float32_def Let_def)

lemma float32_zero: "float32 0 = Finite 0" "float32 0x80000000 = Finite 0"
  by (simp_all add: float32_def Let_def)

text \<open>
  Claim C8. When a buffer parses, the vertex list has exactly \<open>vertex_count\<close> entries;
  entry i is decoded from the 8-byte record at the vertex address plus \<open>i * 8\<close> (three
  signed 16-bit integers at +0, +2, +4, then 2 pad bytes), all records lying inside the
  buffer, and each coordinate is the raw component times the scale, the 32-bit float at
  offset 12 of the navmesh structure. For a finite scale the product is the exact real
  product. The single-precision value nearest to 0.01 has the bits \<open>0x3C23D70A\<close>; a raw
  component of 100 with this scale gives \<open>1 - 3 / 2^27\<close>, within \<open>10^-7\<close> of 1.0.
  A scale of zero (of either sign) gives the coordinate 0.0 for every component.
\<close>

theorem vertex_records_scaled:
  "(parse_content content = Inr (vertices, tris) \<longrightarrow>
      int (length vertices) = vertex_count content
      \<and> (\<forall>i < length vertices.
           vertices ! i =
             \<lparr> x = int_times_float (s16_at content (vertices_abs_addr content + int i * 8))
                     (scale content),
               y = int_times_float (s16_at content (vertices_abs_addr content + int i * 8 + 2))
                     (scale content),
               z = int_times_float (s16_at content (vertices_abs_addr content + int i * 8 + 4))
                     (scale content) \<rparr>)
      \<and> (vertices = [] \<or> vertices_abs_addr content + vertex_count content * 8
                             \<le> int (length content)))
   \<and> scale content = float32 (u32_at content (navmesh_base_addr content + 12))
   \<and> - 32768 \<le> s16_at content offset \<and> s16_at content offset < 32768
   \<and> int_times_float c (Finite r) = Finite (of_int c * r)
   \<and> float32 0x3C23D70A = Finite (10737418 / 2 ^ 30)
   \<and> \<bar>10737418 / 2 ^ 30 - 1 / 100 :: real\<bar> < 1 / 2 ^ 31
   \<and> int_times_float 100 (float32 0x3C23D70A) = Finite (1 - 3 / 2 ^ 27)
   \<and> \<bar>(1 - 3 / 2 ^ 27) - 1 :: real\<bar> < 1 / 10 ^ 7
   \<and> int_times_float c (float32 0) = Finite 0
   \<and> int_times_float c (float32 0x80000000) = Finite 0"
proof (intro conjI impI allI)
  assume ok: "parse_content content = Inr (vertices, tris)"
  then have vs: "vertices = map (\<lambda>i. vertex_at content (scale content)
                                 (vertices_abs_addr content + i * 8))
                           (py_range (vertex_count content))"
    and fit: "vertex_count content \<le> 0
         \<or> vertices_abs_addr content + vertex_count content * 8 \<le> int (length content)"
    by (simp_all add: parse_success_iff)
  show len: "int (length vertices) = vertex_count content"
    using vertex_count_nonneg [of content] by (simp add: vs length_py_range)
  show "vertices = [] \<or> vertices_abs_addr content + vertex_count content * 8
                             \<le> int (length content)"
    using fit len by (cases vertices) auto
  fix i assume "i < length vertices"
  then have "i < nat (vertex_count content)" using len by simp
  then show "vertices ! i =
             \<lparr> x = int_times_float (s16_at content (vertices_abs_addr content + int i * 8))
                     (scale content),
               y = int_times_float (s16_at content (vertices_abs_addr content + int i * 8 + 2))
                     (scale content),
               z = int_times_float (s16_at content (vertices_abs_addr content + int i * 8 + 4))
                     (scale content) \<rparr>"
    by (simp add: vs length_py_range nth_py_range vertex_at_def)
next
  show "scale content = float32 (u32_at content (navmesh_base_addr content + 12))"
    by (simp add: scale_def f32_at_def)
  show "- 32768 \<le> s16_at content offset" "s16_at content offset < 32768"
    using s16_at_range [of content offset] by simp_all
  show "int_times_float c (Finite r) = Finite (of_int c * r)" by simp
  show "float32 0x3C23D70A = Finite (10737418 / 2 ^ 30)" by (rule float32_hundredth)
  show "\<bar>10737418 / 2 ^ 30 - 1 / 100 :: real\<bar> < 1 / 2 ^ 31" by simp
  show "int_times_float 100 (float32 0x3C23D70A) = Finite (1 - 3 / 2 ^ 27)"
    by (simp add: float32_hundredth)
  show "\<bar>(1 - 3 / 2 ^ 27) - 1 :: real\<bar> < 1 / 10 ^ 7" by simp
  show "int_times_float c (float32 0) = Finite 0" by (simp add: float32_zero)
  show "int_times_float c (float32 0x80000000) = Finite 0" by (simp add: float32_zero)
qed

theorem vertex_records_scaled_witness:
  "parse_content example_map =
     Inr ([\<lparr>x = Finite (134217725 / 134217728), y = Finite (- (134217725 / 67108864)),
            z = Finite (402653175 / 134217728)\<rparr>,
           \<lparr>x = Finite 0, y = Finite (5368709 / 536870912), z = Finite (- (5368709 / 536870912))\<rparr>,
           \<lparr>x = Finite (175916487803 / 536870912), y = Finite (- (5368709 / 16384)),
            z = Finite (26843545 / 536870912)\<rparr>],
          [Tri_init [0, 1, 2] [-1, 1, -1] 0])
   \<and> vertex_count example_map = 3
   \<and> vertices_abs_addr example_map + vertex_count example_map * 8 \<le> int (length example_map)"
proof -
  let ?vs = "[\<lparr>x = Finite (134217725 / 134217728), y = Finite (- (134217725 / 67108864)),
            z = Finite (402653175 / 134217728)\<rparr>,
           \<lparr>x = Finite 0, y = Finite (5368709 / 536870912), z = Finite (- (5368709 / 536870912))\<rparr>,
           \<lparr>x = Finite (175916487803 / 536870912), y = Finite (- (5368709 / 16384)),
            z = Finite (26843545 / 536870912)\<rparr>]"
  let ?ts = "[Tri_init [0, 1, 2] [-1, 1, -1] 0]"
  have p: "parse_content example_map = Inr (?vs, ?ts)" by (rule example_parse)
  from vertex_records_scaled [where content = example_map and vertices = ?vs and tris = ?ts] p
  have "int (length ?vs) = vertex_count example_map
      \<and> (?vs = [] \<or> vertices_abs_addr example_map + vertex_count example_map * 8
                      \<le> int (length example_map))"
    by blast
  with p show ?thesis by simp
qed

section \<open>Addresses relative to the navmesh base\<close>

lemma drop_shifted:
  assumes "0 \<le> B" "0 \<le> B + d" "0 \<le> k"
    and same: "drop (nat (B + d)) content' = drop (nat B) content"
  shows "drop (nat (B + d + k)) content' = drop (nat (B + k)) content"
proof -
  have "drop (nat (B + d + k)) content' = drop (nat k) (drop (nat (B + d)) content')"
    using assms(2,3) by (simp add: nat_add_distrib add.commute)
  also have "\<dots> = drop (nat k) (drop (nat B) content)" by (simp only: same)
  also have "\<dots> = drop (nat (B + k)) content"
    using assms(1,3) by (simp add: nat_add_distrib add.commute)
  finally show ?thesis .
qed

lemma relocated_fields:
  assumes "0 \<le> B" "0 \<le> B + d" "0 \<le> k"
    and same: "drop (nat (B + d)) content' = drop (nat B) content"
  shows "u32_at content' (B + d + k) = u32_at content (B + k)"
    and "u16_at content' (B + d + k) = u16_at content (B + k)"
    and "s16_at content' (B + d + k) = s16_at content (B + k)"
    and "f32_at content' (B + d + k) = f32_at content (B + k)"
  using drop_shifted [OF assms]
  by (simp_all add: u32_at_def u16_at_def s16_at_def f32_at_def)

lemma relocated_vertex:
  assumes "0 \<le> B" "0 \<le> B + d" "0 \<le> k"
    and same: "drop (nat (B + d)) content' = drop (nat B) content"
  shows "vertex_at content' sc (B + d + k) = vertex_at content sc (B + k)"
  using relocated_fields(3) [OF assms(1,2) _ same, of k]
    relocated_fields(3) [OF assms(1,2) _ same, of "k + 2"]
    relocated_fields(3) [OF assms(1,2) _ same, of "k + 4"] assms(3)
  by (simp add: vertex_at_def add.assoc)

lemma relocated_tri:
  assumes "0 \<le> B" "0 \<le> B + d" "0 \<le> k"
    and same: "drop (nat (B + d)) content' = drop (nat B) content"
  shows "tri_at content' (B + d + k) = tri_at content (B + k)"
  using relocated_fields(2) [OF assms(1,2) _ same, of k]
    relocated_fields(2) [OF assms(1,2) _ same, of "k + 2"]
    relocated_fields(2) [OF assms(1,2) _ same, of "k + 4"]
    relocated_fields(3) [OF assms(1,2) _ same, of "k + 6"]
    relocated_fields(3) [OF assms(1,2) _ same, of "k + 8"]
    relocated_fields(3) [OF assms(1,2) _ same, of "k + 10"]
    relocated_fields(1) [OF assms(1,2) _ same, of "k + 12"] assms(3)
  by (simp add: tri_at_def add.assoc)

lemma relocated_fits:
  assumes "0 \<le> B" "0 \<le> B + d" "0 < K"
    and same: "drop (nat (B + d)) content' = drop (nat B) content"
  shows "int (length content') < B + d + K \<longleftrightarrow> int (length content) < B + K"
proof -
  have "length (drop (nat (B + d)) content') = length (drop (nat B) content)"
    by (simp only: same)
  then have "length content' - nat (B + d) = length content - nat B" by simp
  with assms(1-3) show ?thesis by linarith
qed

lemma parse_navmesh_relocate:
  assumes B: "0 \<le> B" and Bd: "0 \<le> B + d"
    and same: "drop (nat (B + d)) content' = drop (nat B) content"
  shows "parse_navmesh content' (B + d) = parse_navmesh content B"
proof -
  note f = relocated_fields [OF B Bd _ same]
  have vc: "u16_at content' (B + d + 10) = u16_at content (B + 10)" by (rule f) simp
  have sc: "f32_at content' (B + d + 12) = f32_at content (B + 12)" by (rule f) simp
  have vp: "u32_at content' (B + d + 24) = u32_at content (B + 24)" by (rule f) simp
  have tip: "u32_at content' (B + d + 28) = u32_at content (B + 28)" by (rule f) simp
  let ?vc = "u16_at content (B + 10)" and ?vp = "u32_at content (B + 24)"
  let ?tip = "u32_at content (B + 28)"
  have tip0: "0 \<le> ?tip" and vp0: "0 \<le> ?vp" by (rule u32_at_nonneg)+
  have tc: "u32_at content' (B + d + ?tip + 8) = u32_at content (B + ?tip + 8)"
    using f(1) [of "?tip + 8"] tip0 by (simp add: add.assoc)
  have tp: "u32_at content' (B + d + ?tip + 12) = u32_at content (B + ?tip + 12)"
    using f(1) [of "?tip + 12"] tip0 by (simp add: add.assoc)
  let ?tc = "u32_at content (B + ?tip + 8)" and ?tp = "u32_at content (B + ?tip + 12)"
  have tp0: "0 \<le> ?tp" by (rule u32_at_nonneg)
  note fits = relocated_fits [OF B Bd _ same]
  have fit1: "int (length content') < B + d + 32 \<longleftrightarrow> int (length content) < B + 32"
    by (rule fits) simp
  have fit2: "0 < ?vc \<and> int (length content') < B + d + ?vp + ?vc * 8
      \<longleftrightarrow> 0 < ?vc \<and> int (length content) < B + ?vp + ?vc * 8"
    using fits [of "?vp + ?vc * 8"] vp0 by (auto simp add: add.assoc)
  have fit3: "int (length content') < B + d + ?tip + 16
      \<longleftrightarrow> int (length content) < B + ?tip + 16"
    using fits [of "?tip + 16"] tip0 by (simp add: add.assoc)
  have fit4: "0 < ?tc \<and> int (length content') < B + d + ?tp + ?tc * 16
      \<longleftrightarrow> 0 < ?tc \<and> int (length content) < B + ?tp + ?tc * 16"
    using fits [of "?tp + ?tc * 16"] tp0 by (auto simp add: add.assoc)
  have vs: "map (\<lambda>i. vertex_at content' sc (B + d + ?vp + i * 8)) (py_range n)
      = map (\<lambda>i. vertex_at content sc (B + ?vp + i * 8)) (py_range n)" for sc n
  proof (rule map_cong [OF refl])
    fix i assume "i \<in> set (py_range n)"
    then have "0 \<le> ?vp + i * 8" using vp0 range_nonneg [of n] by auto
    from relocated_vertex [OF B Bd this same]
    show "vertex_at content' sc (B + d + ?vp + i * 8) = vertex_at content sc (B + ?vp + i * 8)"
      by (simp add: add.assoc)
  qed
  have ts: "map (\<lambda>i. tri_at content' (B + d + ?tp + i * 16)) (py_range n)
      = map (\<lambda>i. tri_at content (B + ?tp + i * 16)) (py_range n)" for n
  proof (rule map_cong [OF refl])
    fix i assume "i \<in> set (py_range n)"
    then have "0 \<le> ?tp + i * 16" using tp0 range_nonneg [of n] by auto
    from relocated_tri [OF B Bd this same]
    show "tri_at content' (B + d + ?tp + i * 16) = tri_at content (B + ?tp + i * 16)"
      by (simp add: add.assoc)
  qed
  show ?thesis
    unfolding parse_navmesh_eq [OF B] parse_navmesh_eq [OF Bd]
    by (simp only: vc sc vp tip tc tp vs ts fit1 fit2 fit3 fit4)
qed

lemma moved_same_block: "drop 64 moved_map = drop 60 example_map"
  by (simp add: moved_map_def example_map_def)

lemma parse_navmesh_shifted:
  assumes B: "0 \<le> B" and Bd: "0 \<le> B + d"
    and vc: "u16_at content' (B + 10 + d) = u16_at content (B + 10)"
    and sc: "f32_at content' (B + 12 + d) = f32_at content (B + 12)"
    and vp: "u32_at content' (B + 24 + d) = u32_at content (B + 24)"
    and tip: "u32_at content' (B + 28 + d) = u32_at content (B + 28)"
    and tc: "u32_at content' (B + u32_at content (B + 28) + 8 + d)
               = u32_at content (B + u32_at content (B + 28) + 8)"
    and tp: "u32_at content' (B + u32_at content (B + 28) + 12 + d)
               = u32_at content (B + u32_at content (B + 28) + 12)"
  shows "parse_navmesh content' (B + d) =
    (if int (length content') < B + 32 + d then Inl StructError
     else if 0 < u16_at content (B + 10)
            \<and> int (length content')
                < B + u32_at content (B + 24) + u16_at content (B + 10) * 8 + d
     then Inl StructError
     else if int (length content') < B + u32_at content (B + 28) + 16 + d
     then Inl StructError
     else if 0 < u32_at content (B + u32_at content (B + 28) + 8)
            \<and> int (length content')
                < B + u32_at content (B + u32_at content (B + 28) + 12)
                  + u32_at content (B + u32_at content (B + 28) + 8) * 16 + d
     then Inl StructError
     else Inr (map (\<lambda>i. vertex_at content' (f32_at content (B + 12))
                         (B + u32_at content (B + 24) + i * 8 + d))
                 (py_range (u16_at content (B + 10))),
               map (\<lambda>i. tri_at content'
                         (B + u32_at content (B + u32_at content (B + 28) + 12) + i * 16 + d))
                 (py_range (u32_at content (B + u32_at content (B + 28) + 8)))))"
proof -
  have a: "B + d + k = B + k + d" for k by simp
  have b: "B + k + d + j = B + k + j + d" for k j by simp
  show ?thesis
    unfolding parse_navmesh_eq [OF Bd]
    by (simp only: a b vc sc vp tip tc tp)
qed

text \<open>
  Claim C3. For every buffer and every base address, the parser reads the navmesh
  structure at the base, the vertex records at base + \<open>vertices_ptr\<close> + 8 i, the
  triangle information at base + \<open>tri_info_ptr\<close> and the triangle records at
  base + \<open>tris_ptr\<close> + 16 i, where the three pointers are the stored fields at
  base + 24, base + 28 and base + \<open>tri_info_ptr\<close> + 12: these sums are the addresses
  of its bounds checks and of the records it decodes, and \<open>parse_content\<close> takes the
  base from the header. Consequently, for a buffer that holds the same stored counts,
  scale and pointers at a base changed by d, every one of these addresses is the former
  address plus d; and when the bytes from the new base on are those of the other buffer
  from its base on, the result of parsing is the same.
\<close>

theorem pointer_relativity:
  "(0 \<le> B \<longrightarrow>
      parse_navmesh content B =
        (if int (length content) < B + 32 then Inl StructError
         else if 0 < u16_at content (B + 10)
                \<and> int (length content)
                    < B + u32_at content (B + 24) + u16_at content (B + 10) * 8
         then Inl StructError
         else if int (length content) < B + u32_at content (B + 28) + 16
         then Inl StructError
         else if 0 < u32_at content (B + u32_at content (B + 28) + 8)
                \<and> int (length content)
                    < B + u32_at content (B + u32_at content (B + 28) + 12)
                      + u32_at content (B + u32_at content (B + 28) + 8) * 16
         then Inl StructError
         else Inr (map (\<lambda>i. vertex_at content (f32_at content (B + 12))
                             (B + u32_at content (B + 24) + i * 8))
                     (py_range (u16_at content (B + 10))),
                   map (\<lambda>i. tri_at content
                             (B + u32_at content (B + u32_at content (B + 28) + 12) + i * 16))
                     (py_range (u32_at content (B + u32_at content (B + 28) + 8))))))
   \<and> parse_content content =
       (if int (length content) < 60 then Inl StructError
        else if take 4 content \<noteq> MAP1 then Inl (BadMagic (take 4 content))
        else parse_navmesh content (u32_at content 24))
   \<and> (0 \<le> B \<and> 0 \<le> B + d
        \<and> u16_at content' (B + 10 + d) = u16_at content (B + 10)
        \<and> f32_at content' (B + 12 + d) = f32_at content (B + 12)
        \<and> u32_at content' (B + 24 + d) = u32_at content (B + 24)
        \<and> u32_at content' (B + 28 + d) = u32_at content (B + 28)
        \<and> u32_at content' (B + u32_at content (B + 28) + 8 + d)
            = u32_at content (B + u32_at content (B + 28) + 8)
        \<and> u32_at content' (B + u32_at content (B + 28) + 12 + d)
            = u32_at content (B + u32_at content (B + 28) + 12) \<longrightarrow>
      parse_navmesh content' (B + d) =
        (if int (length content') < B + 32 + d then Inl StructError
         else if 0 < u16_at content (B + 10)
                \<and> int (length content')
                    < B + u32_at content (B + 24) + u16_at content (B + 10) * 8 + d
         then Inl StructError
         else if int (length content') < B + u32_at content (B + 28) + 16 + d
         then Inl StructError
         else if 0 < u32_at content (B + u32_at content (B + 28) + 8)
                \<and> int (length content')
                    < B + u32_at content (B + u32_at content (B + 28) + 12)
                      + u32_at content (B + u32_at content (B + 28) + 8) * 16 + d
         then Inl StructError
         else Inr (map (\<lambda>i. vertex_at content' (f32_at content (B + 12))
                             (B + u32_at content (B + 24) + i * 8 + d))
                     (py_range (u16_at content (B + 10))),
                   map (\<lambda>i. tri_at content'
                             (B + u32_at content (B + u32_at content (B + 28) + 12) + i * 16 + d))
                     (py_range (u32_at content (B + u32_at content (B + 28) + 8))))))
   \<and> (0 \<le> B \<and> 0 \<le> B + d \<and> drop (nat (B + d)) content' = drop (nat B) content \<longrightarrow>
      parse_navmesh content' (B + d) = parse_navmesh content B)"
proof (intro conjI impI)
  assume "0 \<le> B"
  then show "parse_navmesh content B =
        (if int (length content) < B + 32 then Inl StructError
         else if 0 < u16_at content (B + 10)
                \<and> int (length content)
                    < B + u32_at content (B + 24) + u16_at content (B + 10) * 8
         then Inl StructError
         else if int (length content) < B + u32_at content (B + 28) + 16
         then Inl StructError
         else if 0 < u32_at content (B + u32_at content (B + 28) + 8)
                \<and> int (length content)
                    < B + u32_at content (B + u32_at content (B + 28) + 12)
                      + u32_at content (B + u32_at content (B + 28) + 8) * 16
         then Inl StructError
         else Inr (map (\<lambda>i. vertex_at content (f32_at content (B + 12))
                             (B + u32_at content (B + 24) + i * 8))
                     (py_range (u16_at content (B + 10))),
                   map (\<lambda>i. tri_at content
                             (B + u32_at content (B + u32_at content (B + 28) + 12) + i * 16))
                     (py_range (u32_at content (B + u32_at content (B + 28) + 8)))))"
    by (rule parse_navmesh_eq)
next
  show "parse_content content =
       (if int (length content) < 60 then Inl StructError
        else if take 4 content \<noteq> MAP1 then Inl (BadMagic (take 4 content))
        else parse_navmesh content (u32_at content 24))"
    by (simp add: parse_content_eq navmesh_base_addr_def)
next
  assume "0 \<le> B \<and> 0 \<le> B + d
        \<and> u16_at content' (B + 10 + d) = u16_at content (B + 10)
        \<and> f32_at content' (B + 12 + d) = f32_at content (B + 12)
        \<and> u32_at content' (B + 24 + d) = u32_at content (B + 24)
        \<and> u32_at content' (B + 28 + d) = u32_at content (B + 28)
        \<and> u32_at content' (B + u32_at content (B + 28) + 8 + d)
            = u32_at content (B + u32_at content (B + 28) + 8)
        \<and> u32_at content' (B + u32_at content (B + 28) + 12 + d)
            = u32_at content (B + u32_at content (B + 28) + 12)"
  then show "parse_navmesh content' (B + d) =
        (if int (length content') < B + 32 + d then Inl StructError
         else if 0 < u16_at content (B + 10)
                \<and> int (length content')
                    < B + u32_at content (B + 24) + u16_at content (B + 10) * 8 + d
         then Inl StructError
         else if int (length content') < B + u32_at content (B + 28) + 16 + d
         then Inl StructError
         else if 0 < u32_at content (B + u32_at content (B + 28) + 8)
                \<and> int (length content')
                    < B + u32_at content (B + u32_at content (B + 28) + 12)
                      + u32_at content (B + u32_at content (B + 28) + 8) * 16 + d
         then Inl StructError
         else Inr (map (\<lambda>i. vertex_at content' (f32_at content (B + 12))
                             (B + u32_at content (B + 24) + i * 8 + d))
                     (py_range (u16_at content (B + 10))),
                   map (\<lambda>i. tri_at content'
                             (B + u32_at content (B + u32_at content (B + 28) + 12) + i * 16 + d))
                     (py_range (u32_at content (B + u32_at content (B + 28) + 8)))))"
    by (intro parse_navmesh_shifted) simp_all
next
  assume "0 \<le> B \<and> 0 \<le> B + d \<and> drop (nat (B + d)) content' = drop (nat B) content"
  then show "parse_navmesh content' (B + d) = parse_navmesh content B"
    using parse_navmesh_relocate [of B d content' content] by simp
qed

theorem pointer_relativity_witness:
  "u16_at moved_map (60 + 10 + 4) = u16_at example_map (60 + 10)
   \<and> f32_at moved_map (60 + 12 + 4) = f32_at example_map (60 + 12)
   \<and> u32_at moved_map (60 + 24 + 4) = u32_at example_map (60 + 24)
   \<and> u32_at moved_map (60 + 28 + 4) = u32_at example_map (60 + 28)
   \<and> u32_at example_map 24 = 60 \<and> u32_at moved_map 24 = 60 + 4
   \<and> u32_at example_map (60 + 24) = 32 \<and> u32_at example_map (60 + 28) = 56
   \<and> u32_at example_map (60 + 56 + 12) = 72
   \<and> drop (nat (60 + 4)) moved_map = drop (nat 60) example_map
   \<and> parse_navmesh example_map 60 =
       Inr ([\<lparr>x = Finite (134217725 / 134217728), y = Finite (- (134217725 / 67108864)),
            z = Finite (402653175 / 134217728)\<rparr>,
           \<lparr>x = Finite 0, y = Finite (5368709 / 536870912), z = Finite (- (5368709 / 536870912))\<rparr>,
           \<lparr>x = Finite (175916487803 / 536870912), y = Finite (- (5368709 / 16384)),
            z = Finite (26843545 / 536870912)\<rparr>],
            [Tri_init [0, 1, 2] [-1, 1, -1] 0])
   \<and> parse_navmesh moved_map (60 + 4) =
       Inr (map (\<lambda>i. vertex_at moved_map (f32_at example_map (60 + 12)) (60 + 32 + i * 8 + 4))
              [0, 1, 2],
            map (\<lambda>i. tri_at moved_map (60 + 72 + i * 16 + 4)) [0])
   \<and> parse_navmesh moved_map (60 + 4) = parse_navmesh example_map 60
   \<and> parse_content example_map = parse_navmesh example_map 60
   \<and> parse_content moved_map = parse_navmesh moved_map (60 + 4)"
proof -
  note t = pointer_relativity [where content = example_map and content' = moved_map
      and B = 60 and d = 4]
  note tA = t [THEN conjunct1]
    and tS = t [THEN conjunct2, THEN conjunct2, THEN conjunct1]
    and tR = t [THEN conjunct2, THEN conjunct2, THEN conjunct2]
  note tE = pointer_relativity [where content = example_map, THEN conjunct2, THEN conjunct1]
  note tM = pointer_relativity [where content = moved_map, THEN conjunct2, THEN conjunct1]
  have f: "u32_at example_map 24 = 60" "u32_at moved_map 24 = 64"
    "u32_at example_map 84 = 32" "u32_at example_map 88 = 56"
    "u32_at example_map 128 = 72" "u32_at example_map 124 = 1"
    "u16_at example_map 70 = 3" "f32_at example_map 72 = Finite (5368709 / 536870912)"
    "u16_at moved_map 74 = 3" "f32_at moved_map 76 = Finite (5368709 / 536870912)"
    "u32_at moved_map 88 = 32" "u32_at moved_map 92 = 56"
    "u32_at moved_map 132 = 72" "u32_at moved_map 128 = 1"
    by (simp_all add: u32_at_def u16_at_def f32_at_def float32_def example_map_def moved_map_def)
  have len: "length example_map = 148" "length moved_map = 152"
    "take 4 example_map = MAP1" "take 4 moved_map = MAP1"
    by (simp_all add: example_map_def moved_map_def MAP1_def)
  have d: "drop (nat (60 + 4)) moved_map = drop (nat 60) example_map"
    using moved_same_block by simp
  have A: "parse_navmesh example_map 60 =
       Inr ([\<lparr>x = Finite (134217725 / 134217728), y = Finite (- (134217725 / 67108864)),
            z = Finite (402653175 / 134217728)\<rparr>,
           \<lparr>x = Finite 0, y = Finite (5368709 / 536870912), z = Finite (- (5368709 / 536870912))\<rparr>,
           \<lparr>x = Finite (175916487803 / 536870912), y = Finite (- (5368709 / 16384)),
            z = Finite (26843545 / 536870912)\<rparr>],
            [Tri_init [0, 1, 2] [-1, 1, -1] 0])"
    using tA
    apply (simp only: f len py_range_small)
    apply (simp add: f len py_range_small)
    apply (simp add: vertex_at_def tri_at_def s16_at_def u16_at_def u32_at_def signed16_def
        example_map_def)
    done
  have S: "parse_navmesh moved_map (60 + 4) =
       Inr (map (\<lambda>i. vertex_at moved_map (f32_at example_map (60 + 12)) (60 + 32 + i * 8 + 4))
              [0, 1, 2],
            map (\<lambda>i. tri_at moved_map (60 + 72 + i * 16 + 4)) [0])"
    using tS by (simp add: f len py_range_small)
  have R: "parse_navmesh moved_map (60 + 4) = parse_navmesh example_map 60"
    using tR d by simp
  have E: "parse_content example_map = parse_navmesh example_map 60"
    using tE by (simp add: f len)
  have M: "parse_content moved_map = parse_navmesh moved_map (60 + 4)"
    using tM by (simp add: f len)
  from A S R E M d show ?thesis by (simp add: f)
qed

section \<open>Triangles with a vertex index out of range\<close>

lemma index_each_dangling:
  "i \<in> set idxs \<Longrightarrow> int (length xs) \<le> i \<Longrightarrow> index_each xs idxs = Inl IndexError"
proof (induction idxs)
  case Nil
  then show ?case by simp
next
  case (Cons j idxs)
  show ?case
  proof (cases "py_index xs j")
    case (Inl e)
    then have "e = IndexError" by (auto simp: py_index_def Let_def split: if_splits)
    with Inl show ?thesis by simp
  next
    case (Inr v)
    then have "\<not> int (length xs) \<le> j" by (auto simp: py_index_def Let_def split: if_splits)
    with Cons.prems have "i \<in> set idxs" by auto
    from Cons.IH [OF this Cons.prems(2)] Inr show ?thesis by simp
  qed
qed

lemma index_each_error: "index_each xs idxs = Inl e \<Longrightarrow> e = IndexError"
proof (induction idxs arbitrary: e)
  case Nil
  then show ?case by simp
next
  case (Cons j idxs)
  then show ?case
    by (auto simp: py_index_def Let_def split: if_splits sum.splits)
qed

lemma polygons_loop_error:
  "polygons_loop vertices tris polygons colors = Inl e \<Longrightarrow> e = IndexError"
proof (induction tris arbitrary: polygons colors)
  case Nil
  then show ?case by simp
next
  case (Cons tri tris)
  then show ?case
    by (auto split: sum.splits if_splits dest: index_each_error)
qed

lemma polygons_loop_dangling:
  assumes "tri \<in> set tris" "i \<in> set (vertex_indices tri)" "int (length vertices) \<le> i"
  shows "polygons_loop vertices tris polygons colors = Inl IndexError"
  using assms(1)
proof (induction tris arbitrary: polygons colors)
  case Nil
  then show ?case by simp
next
  case (Cons t tris)
  show ?case
  proof (cases "index_each vertices (vertex_indices t)")
    case (Inl e)
    with index_each_error [OF Inl] show ?thesis by simp
  next
    case (Inr points)
    then have "t \<noteq> tri" using index_each_dangling [OF assms(2,3)] by auto
    with Cons.prems have "tri \<in> set tris" by auto
    from Cons.IH [OF this] Inr show ?thesis by simp
  qed
qed

lemma index_each_no_skip:
  "index_each xs idxs = Inr points \<Longrightarrow> \<not> list_ex (\<lambda>i. i \<ge> int (length xs)) idxs"
  using index_each_dangling [of _ idxs xs] by (auto simp: list_ex_iff)

lemma dangling_fields:
  "length dangling_map = 164"
  "take 4 dangling_map = MAP1"
  "navmesh_base_addr dangling_map = 60"
  "vertex_count dangling_map = 3"
  "vertices_abs_addr dangling_map = 92"
  "tri_info_abs_addr dangling_map = 116"
  "tri_count dangling_map = 2"
  "tris_abs_addr dangling_map = 132"
  by (simp_all add: dangling_map_def MAP1_def navmesh_base_addr_def vertex_count_def
      vertices_abs_addr_def vertices_ptr_def tri_info_abs_addr_def tri_info_ptr_def
      tri_count_def tris_abs_addr_def tris_ptr_def u32_at_def u16_at_def)

lemma dangling_scale: "scale dangling_map = Finite (5368709 / 536870912)"
  apply (simp only: scale_def dangling_fields)
  apply (simp add: f32_at_def u32_at_def float32_def dangling_map_def)
  done

lemma dangling_parse:
  "parse_content dangling_map =
     Inr ([\<lparr>x = Finite (134217725 / 134217728), y = Finite (- (134217725 / 67108864)),
            z = Finite (402653175 / 134217728)\<rparr>,
           \<lparr>x = Finite 0, y = Finite (5368709 / 536870912), z = Finite (- (5368709 / 536870912))\<rparr>,
           \<lparr>x = Finite (175916487803 / 536870912), y = Finite (- (5368709 / 16384)),
            z = Finite (26843545 / 536870912)\<rparr>],
          [Tri_init [0, 1, 2] [-1, 1, -1] 0, Tri_init [0, 1, 3] [0, -1, -1] 0x8001])"
  apply (simp only: parse_content_layout dangling_fields dangling_scale py_range_small)
  apply (simp add: vertex_at_def tri_at_def s16_at_def u16_at_def u32_at_def
      signed16_def dangling_map_def)
  done

lemma truthy_Some: "truthy (Some xs) \<longleftrightarrow> xs \<noteq> []"
  by (simp add: truthy_def)

lemma truthy_None: "\<not> truthy None"
  by (simp add: truthy_def)

text \<open>
  Claim C1 says that a triangle with a vertex index at or beyond the number of vertices
  is skipped and the other triangles are still rendered. The code does not do so:
  \<open>visualize_navmesh\<close> first builds \<open>[vertices[i] for i in tri.vertex_indices]\<close>, which
  raises \<open>IndexError\<close> for such an index, and only then tests the indices. Whenever some
  triangle has such an index, \<open>visualize_navmesh\<close> ends with \<open>IndexError\<close>, and so
  does \<open>main\<close>, which does not catch it; and whenever the list comprehension succeeds,
  the test that would skip the triangle is false.
\<close>

theorem dangling_triangle_raises:
  "(tri \<in> set tris \<and> i \<in> set (vertex_indices tri) \<and> int (length vertices) \<le> i
      \<and> vertices \<noteq> [] \<longrightarrow>
      visualize_navmesh (Some vertices) (Some tris) filename = Inl IndexError
      \<and> (file_path \<noteq> [] \<and> parse_body fs file_path = Inr (vertices, tris) \<longrightarrow>
           main fs file_path = Inl IndexError))
   \<and> (index_each vertices (vertex_indices tri) = Inr points \<longrightarrow>
        \<not> list_ex (\<lambda>i. i \<ge> int (length vertices)) (vertex_indices tri))"
proof (intro conjI impI)
  assume a: "tri \<in> set tris \<and> i \<in> set (vertex_indices tri) \<and> int (length vertices) \<le> i
      \<and> vertices \<noteq> []"
  then have ne: "tris \<noteq> []" by auto
  from a have loop: "polygons_loop vertices tris [] [] = Inl IndexError"
    using polygons_loop_dangling [of tri tris i vertices] by simp
  with a ne show v: "visualize_navmesh (Some vertices) (Some tris) filename = Inl IndexError"
    by (simp add: visualize_navmesh_def truthy_Some)
  assume "file_path \<noteq> [] \<and> parse_body fs file_path = Inr (vertices, tris)"
  with a ne loop show "main fs file_path = Inl IndexError"
    by (simp add: main_def parse_map_file_def visualize_navmesh_def truthy_Some)
next
  assume "index_each vertices (vertex_indices tri) = Inr points"
  then show "\<not> list_ex (\<lambda>i. i \<ge> int (length vertices)) (vertex_indices tri)"
    by (rule index_each_no_skip)
qed

theorem dangling_triangle_raises_witness:
  "parse_content dangling_map =
     Inr ([\<lparr>x = Finite (134217725 / 134217728), y = Finite (- (134217725 / 67108864)),
            z = Finite (402653175 / 134217728)\<rparr>,
           \<lparr>x = Finite 0, y = Finite (5368709 / 536870912), z = Finite (- (5368709 / 536870912))\<rparr>,
           \<lparr>x = Finite (175916487803 / 536870912), y = Finite (- (5368709 / 16384)),
            z = Finite (26843545 / 536870912)\<rparr>],
          [Tri_init [0, 1, 2] [-1, 1, -1] 0, Tri_init [0, 1, 3] [0, -1, -1] 0x8001])
   \<and> main (\<lambda>p. Content dangling_map) ''map.vpa'' = Inl IndexError
   \<and> \<not> list_ex (\<lambda>i. i \<ge> 3) (vertex_indices (Tri_init [0, 1, 2] [-1, 1, -1] 0))"
proof -
  let ?vs = "[\<lparr>x = Finite (134217725 / 134217728), y = Finite (- (134217725 / 67108864)),
            z = Finite (402653175 / 134217728)\<rparr>,
           \<lparr>x = Finite 0, y = Finite (5368709 / 536870912), z = Finite (- (5368709 / 536870912))\<rparr>,
           \<lparr>x = Finite (175916487803 / 536870912), y = Finite (- (5368709 / 16384)),
            z = Finite (26843545 / 536870912)\<rparr>]"
  let ?t0 = "Tri_init [0, 1, 2] [-1, 1, -1] 0"
  let ?t1 = "Tri_init [0, 1, 3] [0, -1, -1] 0x8001"
  let ?fs = "\<lambda>p::string. Content dangling_map"
  have h: "?t1 \<in> set [?t0, ?t1] \<and> 3 \<in> set (vertex_indices ?t1) \<and> int (length ?vs) \<le> 3
      \<and> ?vs \<noteq> []"
    by (simp add: Tri_init_def)
  have b: "''map.vpa'' \<noteq> [] \<and> parse_body ?fs ''map.vpa'' = Inr (?vs, [?t0, ?t1])"
    by (simp add: parse_body_def dangling_parse)
  from dangling_triangle_raises [where tri = ?t1 and tris = "[?t0, ?t1]" and i = 3
      and vertices = ?vs and fs = ?fs and file_path = "''map.vpa''"] h b
  have m: "main ?fs ''map.vpa'' = Inl IndexError" by blast
  have e: "index_each ?vs (vertex_indices ?t0) = Inr ?vs"
    by (simp add: Tri_init_def py_index_def)
  from dangling_triangle_raises [where vertices = ?vs and tri = ?t0 and points = ?vs] e
  have "\<not> list_ex (\<lambda>i. i \<ge> int (length ?vs)) (vertex_indices ?t0)" by blast
  then have "\<not> list_ex (\<lambda>i. i \<ge> 3) (vertex_indices ?t0)" by simp
  with m show ?thesis by (simp only: dangling_parse simp_thms)
qed

section \<open>What the caller of the parser sees\<close>

lemma empty_fields:
  "length empty_map = 108"
  "take 4 empty_map = MAP1"
  "navmesh_base_addr empty_map = 60"
  "vertex_count empty_map = 0"
  "vertices_abs_addr empty_map = 92"
  "tri_info_abs_addr empty_map = 92"
  "tri_count empty_map = 0"
  "tris_abs_addr empty_map = 108"
  by (simp_all add: empty_map_def MAP1_def navmesh_base_addr_def vertex_count_def
      vertices_abs_addr_def vertices_ptr_def tri_info_abs_addr_def tri_info_ptr_def
      tri_count_def tris_abs_addr_def tris_ptr_def u32_at_def u16_at_def)

lemma empty_parse: "parse_content empty_map = Inr ([], [])"
  by (simp only: parse_content_layout empty_fields py_range_small) simp





text \<open>
  Claim C10. When a buffer parses and its vertex count or its triangle count is zero,
  one of the two returned lists is empty, the test \<open>if vertices and tris\<close> of \<open>main\<close>
  fails, and \<open>main\<close> takes the "Failed to parse map file" path without visualizing,
  exactly as it does after a failure of \<open>parse_map_file\<close>; \<open>visualize_navmesh\<close>
  itself would return after "No data to visualize." on these lists.
\<close>

theorem empty_mesh_treated_as_failure:
  "(file_path \<noteq> [] \<and> fs file_path = Content content
      \<and> parse_content content = Inr (vertices, tris)
      \<and> (vertex_count content = 0 \<or> tri_count content = 0) \<longrightarrow>
      (vertices = [] \<or> tris = [])
      \<and> parse_map_file fs file_path = (Some vertices, Some tris)
      \<and> main fs file_path = Inr FailedToParse
      \<and> visualize_navmesh (Some vertices) (Some tris) file_path = Inr None)
   \<and> (file_path' \<noteq> [] \<and> parse_body fs' file_path' = Inl e \<longrightarrow>
        parse_map_file fs' file_path' = (None, None)
        \<and> main fs' file_path' = Inr FailedToParse)"
proof (intro conjI impI)
  assume a: "file_path \<noteq> [] \<and> fs file_path = Content content
      \<and> parse_content content = Inr (vertices, tris)
      \<and> (vertex_count content = 0 \<or> tri_count content = 0)"
  then have vs: "vertices = map (\<lambda>i. vertex_at content (scale content)
                                 (vertices_abs_addr content + i * 8))
                           (py_range (vertex_count content))"
    and ts: "tris = map (\<lambda>i. tri_at content (tris_abs_addr content + i * 16))
                      (py_range (tri_count content))"
    by (simp_all add: parse_success_iff)
  from a vs ts show e: "vertices = [] \<or> tris = []"
    by (auto simp: py_range_small)
  from a show p: "parse_map_file fs file_path = (Some vertices, Some tris)"
    by (simp add: parse_map_file_def parse_body_def)
  from a e p show "main fs file_path = Inr FailedToParse"
    by (auto simp: main_def truthy_Some)
  from e show "visualize_navmesh (Some vertices) (Some tris) file_path = Inr None"
    by (auto simp: visualize_navmesh_def truthy_Some)
next
  assume a: "file_path' \<noteq> [] \<and> parse_body fs' file_path' = Inl e"
  then show p: "parse_map_file fs' file_path' = (None, None)"
    by (simp add: parse_map_file_failure)
  from a p show "main fs' file_path' = Inr FailedToParse"
    by (simp add: main_def truthy_None)
qed

theorem empty_mesh_treated_as_failure_witness:
  "parse_content empty_map = Inr ([], [])
   \<and> vertex_count empty_map = 0
   \<and> parse_map_file (\<lambda>p. Content empty_map) ''empty.vpa'' = (Some [], Some [])
   \<and> main (\<lambda>p. Content empty_map) ''empty.vpa'' = Inr FailedToParse
   \<and> parse_body (\<lambda>p. NoSuchFile) ''missing.vpa'' = Inl FileNotFoundError
   \<and> parse_map_file (\<lambda>p. NoSuchFile) ''missing.vpa'' = (None, None)
   \<and> main (\<lambda>p. NoSuchFile) ''missing.vpa'' = Inr FailedToParse"
proof -
  let ?f = "\<lambda>p::string. Content empty_map"
  let ?g = "\<lambda>p::string. NoSuchFile"
  have a: "''empty.vpa'' \<noteq> [] \<and> ?f ''empty.vpa'' = Content empty_map
      \<and> parse_content empty_map = Inr ([], [])
      \<and> (vertex_count empty_map = 0 \<or> tri_count empty_map = 0)"
    by (simp add: empty_parse empty_fields)
  have b: "''missing.vpa'' \<noteq> [] \<and> parse_body ?g ''missing.vpa'' = Inl FileNotFoundError"
    by (simp add: parse_body_def)
  note t = empty_mesh_treated_as_failure [where fs = ?f and file_path = "''empty.vpa''"
      and content = empty_map and vertices = "[]" and tris = "[]" and fs' = ?g
      and file_path' = "''missing.vpa''" and e = FileNotFoundError]
  from t a have 1: "parse_map_file ?f ''empty.vpa'' = (Some [], Some [])
      \<and> main ?f ''empty.vpa'' = Inr FailedToParse"
    by blast
  from t b have 2: "parse_map_file ?g ''missing.vpa'' = (None, None)
      \<and> main ?g ''missing.vpa'' = Inr FailedToParse"
    by blast
  from 1 2 a b show ?thesis by (simp add: empty_fields)
qed

end
